theory Spec2Isabelle
  imports Main "HOL-Library.AList"
begin

section \<open>Python values, exceptions and the JSON files of the workspace\<close>

text \<open>
  The service in \<^verbatim>\<open>bioimageit_omero/data_omero.py\<close> moves metadata between container
  objects, JSON documents in a local workspace directory and annotations of an OMERO
  server. The values it stores in containers and documents are the ones Python's
  \<^verbatim>\<open>json\<close> module maps to themselves: \<^verbatim>\<open>None\<close>, booleans, integers, strings, lists
  and dictionaries with string keys. A dictionary is an association list in insertion
  order; its keys are distinct in every dictionary the code builds. Floating point numbers
  are left out.
\<close>

datatype json =
    JNull
  | JBool bool
  | JInt int
  | JStr string
  | JList "json list"
  | JObj "(string \<times> json) list"

text \<open>
  The exceptions. \<open>KeyError\<close>, \<open>TypeError\<close> and \<open>AttributeError\<close> are raised by the Python
  runtime, \<open>FileNotFoundError\<close> and \<open>JSONDecodeError\<close> by the standard library, and
  \<open>DataServiceError\<close> is the one exception class the module raises itself (imported from
  \<^verbatim>\<open>bioimageit_core.core.exceptions\<close>). \<open>MalformedDocumentError\<close> and
  \<open>UnsupportedFormatError\<close> are the names the specification uses; no function of the
  module constructs them. \<open>ServerError\<close> stands for whatever the OMERO client raises when
  the server refuses a call.
\<close>

datatype exn =
    KeyError string
  | TypeError
  | AttributeError
  | FileNotFoundError
  | JSONDecodeError
  | DataServiceError string
  | MalformedDocumentError
  | UnsupportedFormatError
  | ServerError

text \<open>A raise aborts the rest of the function: sequencing on \<open>exn + 'a\<close>.\<close>

definition and_then :: "exn + 'a \<Rightarrow> ('a \<Rightarrow> exn + 'b) \<Rightarrow> exn + 'b" where
  "and_then m f = (case m of Inl e \<Rightarrow> Inl e | Inr x \<Rightarrow> f x)"

text \<open>
  \<^verbatim>\<open>obj[key]\<close> with a string key: a dictionary gives the value or raises
  \<^verbatim>\<open>KeyError\<close>; \<^verbatim>\<open>None\<close>, numbers, strings and lists raise \<^verbatim>\<open>TypeError\<close>.
\<close>

fun py_getitem :: "json \<Rightarrow> string \<Rightarrow> exn + json" where
  "py_getitem (JObj kvs) k = (case map_of kvs k of None \<Rightarrow> Inl (KeyError k) | Some v \<Rightarrow> Inr v)"
| "py_getitem _ k = Inl TypeError"

text \<open>
  \<^verbatim>\<open>for x in obj\<close>: a list yields its elements, a string its characters (as
  one-character strings), a dictionary its keys; anything else is not iterable.
\<close>

fun py_iter :: "json \<Rightarrow> exn + json list" where
  "py_iter (JList xs) = Inr xs"
| "py_iter (JStr s) = Inr (map (\<lambda>c. JStr [c]) s)"
| "py_iter (JObj kvs) = Inr (map (\<lambda>kv. JStr (fst kv)) kvs)"
| "py_iter _ = Inl TypeError"

text \<open>
  \<^verbatim>\<open>key in obj\<close> with a string key: key membership for a dictionary, element
  membership for a list, substring test for a string, \<^verbatim>\<open>TypeError\<close> otherwise.
\<close>

definition is_substr :: "string \<Rightarrow> string \<Rightarrow> bool" where
  "is_substr k s = list_ex (\<lambda>i. take (length k) (drop i s) = k) [0..<Suc (length s)]"

fun py_contains :: "string \<Rightarrow> json \<Rightarrow> exn + bool" where
  "py_contains k (JObj kvs) = Inr (map_of kvs k \<noteq> None)"
| "py_contains k (JList xs) = Inr (JStr k \<in> set xs)"
| "py_contains k (JStr s) = Inr (is_substr k s)"
| "py_contains k _ = Inl TypeError"

text \<open>
  A file of the workspace is empty, holds the text \<^verbatim>\<open>json.dump\<close> writes for a value
  (which \<^verbatim>\<open>json.load\<close> reads back as that value), or holds bytes that are not JSON.
\<close>

datatype file_content = EmptyFile | JsonText json | OtherBytes

type_synonym filesystem = "string \<rightharpoonup> file_content"

text \<open>
  \<^verbatim>\<open>_read_json\<close>: \<^verbatim>\<open>os.path.getsize\<close> raises when the file is missing; an empty file
  makes the function fall off its end and return \<^verbatim>\<open>None\<close>.
\<close>

definition read_json :: "string \<Rightarrow> filesystem \<Rightarrow> exn + json" where
  "read_json md_uri fs =
     (case fs md_uri of
        None \<Rightarrow> Inl FileNotFoundError
      | Some EmptyFile \<Rightarrow> Inr JNull
      | Some (JsonText j) \<Rightarrow> Inr j
      | Some OtherBytes \<Rightarrow> Inl JSONDecodeError)"

definition write_json :: "json \<Rightarrow> string \<Rightarrow> filesystem \<Rightarrow> filesystem" where
  "write_json metadata md_uri fs = fs(md_uri \<mapsto> JsonText metadata)"

section \<open>Containers\<close>

text \<open>
  Modelled from the spec: the container classes are declared in
  \<^verbatim>\<open>bioimageit_core.containers.data_containers\<close>, not in this repository. A
  \<^verbatim>\<open>Container\<close> is a (uri, uuid) reference pair, constructed as
  \<^verbatim>\<open>Container(md_uri, uuid)\<close>; a run input is constructed from its name, dataset, query
  and origin output name, a run parameter from its name and value; a fresh \<^verbatim>\<open>Run()\<close>
  has empty \<^verbatim>\<open>inputs\<close> and \<^verbatim>\<open>parameters\<close> lists. The records list the attributes
  the module reads and writes. Attributes of different classes that share a name are told
  apart by a prefix.
\<close>

record Container =
  c_md_uri :: json
  c_uuid :: json

record RunInputContainer =
  ri_name :: json
  ri_dataset :: json
  ri_query :: json
  ri_origin_output_name :: json

record RunParameterContainer =
  rp_name :: json
  rp_value :: json

record Run =
  r_uuid :: json
  r_md_uri :: json
  r_process_name :: json
  r_process_uri :: json
  r_processed_dataset :: Container
  r_inputs :: "RunInputContainer list"
  r_parameters :: "RunParameterContainer list"

section \<open>The run document: \<^verbatim>\<open>_write_run\<close> and \<^verbatim>\<open>_parse_run\<close>\<close>

definition run_input_entry :: "RunInputContainer \<Rightarrow> json" where
  "run_input_entry input =
     JObj [(''name'', ri_name input),
           (''dataset'', ri_dataset input),
           (''query'', ri_query input),
           (''origin_output_name'', ri_origin_output_name input)]"

definition run_parameter_entry :: "RunParameterContainer \<Rightarrow> json" where
  "run_parameter_entry parameter =
     JObj [(''name'', rp_name parameter), (''value'', rp_value parameter)]"

text \<open>The dictionary \<^verbatim>\<open>_write_run\<close> builds before it writes it.\<close>

definition run_metadata :: "Run \<Rightarrow> json" where
  "run_metadata run =
     JObj [(''uuid'', r_uuid run),
           (''process'', JObj [(''name'', r_process_name run), (''url'', r_process_uri run)]),
           (''processed_dataset'',
              JObj [(''uuid'', c_uuid (r_processed_dataset run)),
                    (''url'', c_md_uri (r_processed_dataset run))]),
           (''inputs'', JList (map run_input_entry (r_inputs run))),
           (''parameters'', JList (map run_parameter_entry (r_parameters run)))]"

text \<open>
  \<^verbatim>\<open>_write_run\<close> writes the dictionary to the file \<^verbatim>\<open>run.md_uri\<close>. The model opens
  files by path only: an \<^verbatim>\<open>md_uri\<close> that is not a string is a \<^verbatim>\<open>TypeError\<close> (Python
  would take an integer for a file descriptor).
\<close>

definition write_run :: "Run \<Rightarrow> filesystem \<Rightarrow> exn + filesystem" where
  "write_run run fs =
     (case r_md_uri run of
        JStr path \<Rightarrow> Inr (write_json (run_metadata run) path fs)
      | _ \<Rightarrow> Inl TypeError)"

definition parse_run_input :: "json \<Rightarrow> exn + RunInputContainer" where
  "parse_run_input input =
     and_then (py_getitem input ''name'') (\<lambda>n.
     and_then (py_getitem input ''dataset'') (\<lambda>d.
     and_then (py_getitem input ''query'') (\<lambda>q.
     and_then (py_getitem input ''origin_output_name'') (\<lambda>oon.
       Inr \<lparr>ri_name = n, ri_dataset = d, ri_query = q, ri_origin_output_name = oon\<rparr>))))"

definition parse_run_parameter :: "json \<Rightarrow> exn + RunParameterContainer" where
  "parse_run_parameter parameter =
     and_then (py_getitem parameter ''name'') (\<lambda>n.
     and_then (py_getitem parameter ''value'') (\<lambda>v.
       Inr \<lparr>rp_name = n, rp_value = v\<rparr>))"

text \<open>The two \<^verbatim>\<open>for\<close> loops append to the container's list, one element a turn.\<close>

fun parse_run_inputs :: "json list \<Rightarrow> RunInputContainer list \<Rightarrow> exn + RunInputContainer list" where
  "parse_run_inputs [] acc = Inr acc"
| "parse_run_inputs (input # rest) acc =
     and_then (parse_run_input input) (\<lambda>i. parse_run_inputs rest (acc @ [i]))"

fun parse_run_parameters ::
  "json list \<Rightarrow> RunParameterContainer list \<Rightarrow> exn + RunParameterContainer list" where
  "parse_run_parameters [] acc = Inr acc"
| "parse_run_parameters (parameter # rest) acc =
     and_then (parse_run_parameter parameter) (\<lambda>p. parse_run_parameters rest (acc @ [p]))"

text \<open>
  \<^verbatim>\<open>_parse_run\<close>, in the order Python evaluates the subscripts: \<^verbatim>\<open>uuid\<close>,
  \<^verbatim>\<open>process.name\<close>, \<^verbatim>\<open>process.url\<close>, \<^verbatim>\<open>processed_dataset.url\<close>,
  \<^verbatim>\<open>processed_dataset.uuid\<close>, then the inputs and the parameters.
\<close>

definition parse_run_metadata :: "string \<Rightarrow> json \<Rightarrow> exn + Run" where
  "parse_run_metadata md_uri metadata =
     and_then (py_getitem metadata ''uuid'') (\<lambda>uuid.
     and_then (py_getitem metadata ''process'') (\<lambda>p1.
     and_then (py_getitem p1 ''name'') (\<lambda>process_name.
     and_then (py_getitem metadata ''process'') (\<lambda>p2.
     and_then (py_getitem p2 ''url'') (\<lambda>process_uri.
     and_then (py_getitem metadata ''processed_dataset'') (\<lambda>d1.
     and_then (py_getitem d1 ''url'') (\<lambda>d_url.
     and_then (py_getitem metadata ''processed_dataset'') (\<lambda>d2.
     and_then (py_getitem d2 ''uuid'') (\<lambda>d_uuid.
     and_then (py_getitem metadata ''inputs'') (\<lambda>ins.
     and_then (py_iter ins) (\<lambda>in_items.
     and_then (parse_run_inputs in_items []) (\<lambda>inputs.
     and_then (py_getitem metadata ''parameters'') (\<lambda>ps.
     and_then (py_iter ps) (\<lambda>p_items.
     and_then (parse_run_parameters p_items []) (\<lambda>parameters.
       Inr \<lparr>r_uuid = uuid, r_md_uri = JStr md_uri,
            r_process_name = process_name, r_process_uri = process_uri,
            r_processed_dataset = \<lparr>c_md_uri = d_url, c_uuid = d_uuid\<rparr>,
            r_inputs = inputs, r_parameters = parameters\<rparr>)))))))))))))))"

definition parse_run :: "string \<Rightarrow> filesystem \<Rightarrow> exn + Run" where
  "parse_run md_uri fs = and_then (read_json md_uri fs) (parse_run_metadata md_uri)"

subsection \<open>Vocabulary for the properties of the run document\<close>

text \<open>A chain of subscripts, \<^verbatim>\<open>doc[k1][k2]...\<close>, as \<^verbatim>\<open>_parse_run\<close> evaluates them.\<close>

fun get_path :: "json \<Rightarrow> string list \<Rightarrow> exn + json" where
  "get_path j [] = Inr j"
| "get_path j (k # ks) = and_then (py_getitem j k) (\<lambda>v. get_path v ks)"

definition run_required_paths :: "string list list" where
  "run_required_paths =
     [[''uuid''], [''process'', ''name''], [''process'', ''url''],
      [''processed_dataset'', ''uuid''], [''processed_dataset'', ''url'']]"

definition run_input_keys :: "string list" where
  "run_input_keys = [''name'', ''dataset'', ''query'', ''origin_output_name'']"

definition run_parameter_keys :: "string list" where
  "run_parameter_keys = [''name'', ''value'']"

definition lacks_key :: "string list \<Rightarrow> json list \<Rightarrow> bool" where
  "lacks_key keys items = list_ex (\<lambda>x. list_ex (\<lambda>k. isl (py_getitem x k)) keys) items"

text \<open>
  A value of \<^verbatim>\<open>inputs\<close> or \<^verbatim>\<open>parameters\<close> is rejected when it is not a list of
  objects with the required keys: a list with an element on which a required subscript
  fails, or any value that is not a list (\<^verbatim>\<open>null\<close>, a boolean, a number, a string, an
  object), with two exceptions, the empty string and the empty object.
\<close>

definition rejected_items :: "string list \<Rightarrow> json \<Rightarrow> bool" where
  "rejected_items keys v =
     (case v of
        JList items \<Rightarrow> lacks_key keys items
      | JStr s \<Rightarrow> s \<noteq> []
      | JObj kvs \<Rightarrow> kvs \<noteq> []
      | _ \<Rightarrow> True)"

text \<open>
  A document is malformed when one of the five required subscript chains fails, or when
  its \<^verbatim>\<open>inputs\<close> or its \<^verbatim>\<open>parameters\<close> is present and its value is rejected.
\<close>

definition malformed_run_document :: "json \<Rightarrow> bool" where
  "malformed_run_document doc =
     (list_ex (\<lambda>ks. isl (get_path doc ks)) run_required_paths
      \<or> (case py_getitem doc ''inputs'' of
            Inr v \<Rightarrow> rejected_items run_input_keys v | Inl e \<Rightarrow> False)
      \<or> (case py_getitem doc ''parameters'' of
            Inr v \<Rightarrow> rejected_items run_parameter_keys v | Inl e \<Rightarrow> False))"

text \<open>The exceptions of the Python runtime that a failed subscript or iteration raises.\<close>

fun runtime_error :: "exn \<Rightarrow> bool" where
  "runtime_error (KeyError k) = True"
| "runtime_error TypeError = True"
| "runtime_error _ = False"

section \<open>The OMERO server, as the module uses it\<close>

text \<open>
  The module reaches the server through \<^verbatim>\<open>self._conn\<close>, a \<^verbatim>\<open>BlitzGateway\<close> of the
  OMERO client library. The model keeps what the module reads and writes there: projects,
  datasets and images by id, each with its name, owner, creation time, parent and the
  annotations linked to it, and the counter the server takes fresh annotation ids from.
  An annotation is a tag, a list of key-value pairs or an attached file (its name and
  content).
\<close>

datatype omero_annotation =
    TagAnnotation nat string
  | MapAnnotation nat "(string \<times> string) list"
  | FileAnnotation nat string file_content

fun ann_id :: "omero_annotation \<Rightarrow> nat" where
  "ann_id (TagAnnotation i v) = i"
| "ann_id (MapAnnotation i kvs) = i"
| "ann_id (FileAnnotation i n c) = i"

record omero_object =
  o_name :: json
  o_owner :: json
  o_time :: int
  o_parent :: "nat option"
  o_annotations :: "omero_annotation list"

record omero_server =
  projects :: "nat \<rightharpoonup> omero_object"
  datasets :: "nat \<rightharpoonup> omero_object"
  images :: "nat \<rightharpoonup> omero_object"
  next_id :: nat

text \<open>The state the module works on: the server and the local files.\<close>

record world =
  srv :: omero_server
  files :: filesystem

text \<open>
  \<^verbatim>\<open>self._conn.getObject(kind, oid)\<close> returns the object with that id, or \<^verbatim>\<open>None\<close>.
  Ids are non-negative integers; any other value names no object.
\<close>

definition object_id :: "json \<Rightarrow> nat option" where
  "object_id j = (case j of JInt i \<Rightarrow> if 0 \<le> i then Some (nat i) else None | _ \<Rightarrow> None)"

definition get_object :: "(nat \<rightharpoonup> omero_object) \<Rightarrow> json \<Rightarrow> (nat \<times> omero_object) option" where
  "get_object table oid =
     (case object_id oid of
        None \<Rightarrow> None
      | Some i \<Rightarrow> (case table i of None \<Rightarrow> None | Some obj \<Rightarrow> Some (i, obj)))"

text \<open>\<^verbatim>\<open>obj.linkAnnotation(ann)\<close> adds the annotation to the object's list.\<close>

definition link_annotation :: "omero_annotation \<Rightarrow> nat \<Rightarrow> (nat \<rightharpoonup> omero_object) \<Rightarrow> (nat \<rightharpoonup> omero_object)" where
  "link_annotation ann i table =
     (case table i of
        None \<Rightarrow> table
      | Some obj \<Rightarrow> table(i \<mapsto> obj\<lparr>o_annotations := o_annotations obj @ [ann]\<rparr>))"

text \<open>
  \<^verbatim>\<open>self._conn.deleteObjects('Annotation', ids, wait=True)\<close> deletes the annotations
  with these ids, wherever they are linked.
\<close>

definition unlink_all :: "nat list \<Rightarrow> (nat \<rightharpoonup> omero_object) \<Rightarrow> (nat \<rightharpoonup> omero_object)" where
  "unlink_all ids table =
     (\<lambda>i. map_option
        (\<lambda>obj. obj\<lparr>o_annotations := filter (\<lambda>a. ann_id a \<notin> set ids) (o_annotations obj)\<rparr>)
        (table i))"

definition delete_annotations :: "nat list \<Rightarrow> omero_server \<Rightarrow> omero_server" where
  "delete_annotations ids s =
     s\<lparr>projects := unlink_all ids (projects s),
       datasets := unlink_all ids (datasets s),
       images := unlink_all ids (images s)\<rparr>"

text \<open>\<^verbatim>\<open>os.path.join\<close> and \<^verbatim>\<open>os.path.basename\<close> on POSIX paths.\<close>

definition os_path_join :: "string \<Rightarrow> string \<Rightarrow> string" where
  "os_path_join a b =
     (if b \<noteq> [] \<and> hd b = CHR ''/'' then b
      else if a = [] \<or> last a = CHR ''/'' then a @ b
      else a @ ''/'' @ b)"

definition os_path_basename :: "string \<Rightarrow> string" where
  "os_path_basename p = rev (takeWhile (\<lambda>c. c \<noteq> CHR ''/'') (rev p))"

text \<open>
  \<^verbatim>\<open>self._conn.createFileAnnfromLocalFile(path, ...)\<close> uploads the local file and
  creates a file annotation, not linked to anything yet, whose file is named after the
  last component of the path.
\<close>

definition create_file_ann_from_local_file ::
  "string \<Rightarrow> world \<Rightarrow> (exn + omero_annotation) \<times> world" where
  "create_file_ann_from_local_file path w =
     (case files w path of
        None \<Rightarrow> (Inl FileNotFoundError, w)
      | Some content \<Rightarrow>
          (Inr (FileAnnotation (next_id (srv w)) (os_path_basename path) content),
           w\<lparr>srv := (srv w)\<lparr>next_id := next_id (srv w) + 1\<rparr>\<rparr>))"

text \<open>The names of the file annotations in a list of annotations, in order.\<close>

fun file_names :: "omero_annotation list \<Rightarrow> string list" where
  "file_names [] = []"
| "file_names (FileAnnotation i n c # anns) = n # file_names anns"
| "file_names (_ # anns) = file_names anns"

text \<open>A \<^verbatim>\<open>Dataset\<close> container is a \<^verbatim>\<open>Container\<close> with a name and the list of its data.\<close>

record Dataset = Container +
  ds_name :: json
  ds_uris :: "Container list"

section \<open>\<^verbatim>\<open>create_run\<close>\<close>

subsection \<open>The name of the run document\<close>

text \<open>
  \<^verbatim>\<open>str(n)\<close> for a natural number, and the name
  \<^verbatim>\<open>"run_" + str(run_id_count) + ".md.json"\<close>.
\<close>

definition digit_char :: "nat \<Rightarrow> char" where
  "digit_char d = char_of (48 + d)"

fun str_nat :: "nat \<Rightarrow> string" where
  "str_nat n = (if n < 10 then [digit_char n] else str_nat (n div 10) @ [digit_char (n mod 10)])"

definition run_name :: "nat \<Rightarrow> string" where
  "run_name run_id_count = ''run_'' @ str_nat run_id_count @ ''.md.json''"

text \<open>
  The loop
  \<^verbatim>\<open>
  run_md_file_name = "run.md.json"
  run_id_count = 0
  while run_md_file_name in ann_files:
      run_id_count += 1
      run_md_file_name = "run_" + str(run_id_count) + ".md.json"
  \<close>
  ends because the names it tries are pairwise different and \<^verbatim>\<open>ann_files\<close> is finite:
  the number of names still ahead that are in \<^verbatim>\<open>ann_files\<close> goes down at every turn.
  The decimal numeral of a number determines the number, which makes the names different.
\<close>

definition digit_value :: "char \<Rightarrow> nat" where
  "digit_value c = of_char c - 48"

definition nat_of_digits :: "string \<Rightarrow> nat" where
  "nat_of_digits s = foldl (\<lambda>a c. a * 10 + digit_value c) 0 s"

lemma digit_value_digit_char: "d < 10 \<Longrightarrow> digit_value (digit_char d) = d"
  by (simp add: digit_value_def digit_char_def)

lemma nat_of_digits_snoc: "nat_of_digits (s @ [c]) = nat_of_digits s * 10 + digit_value c"
  by (simp add: nat_of_digits_def)

lemma nat_of_digits_str_nat: "nat_of_digits (str_nat n) = n"
proof (induction n rule: str_nat.induct)
  case (1 n)
  show ?case
  proof (cases "n < 10")
    case True
    then show ?thesis by (simp add: nat_of_digits_def digit_value_digit_char)
  next
    case False
    then have "nat_of_digits (str_nat n) = nat_of_digits (str_nat (n div 10)) * 10 + digit_value (digit_char (n mod 10))"
      by (subst str_nat.simps) (simp add: nat_of_digits_snoc)
    also have "\<dots> = (n div 10) * 10 + n mod 10"
      using False "1.IH" by (simp add: digit_value_digit_char)
    finally show ?thesis by simp
  qed
qed

lemma inj_str_nat: "inj str_nat"
  by (rule inj_on_inverseI [where g = nat_of_digits]) (rule nat_of_digits_str_nat)

lemma inj_run_name: "inj run_name"
  using inj_str_nat by (auto simp: inj_def run_name_def)

lemma finite_run_names: "finite {k. c < k \<and> run_name k \<in> set names}"
proof -
  have "finite (run_name -` set names)"
    by (rule finite_vimageI) (simp_all add: inj_run_name)
  moreover have "{k. c < k \<and> run_name k \<in> set names} \<subseteq> run_name -` set names" by auto
  ultimately show ?thesis by (rule rev_finite_subset)
qed

lemma run_names_step:
  "{k. c < k \<and> run_name k \<in> set names} =
     (if run_name (Suc c) \<in> set names then insert (Suc c) {k. Suc c < k \<and> run_name k \<in> set names}
      else {k. Suc c < k \<and> run_name k \<in> set names})"
  by (auto simp: less_Suc_eq_le Suc_le_eq dest: le_neq_implies_less) (metis Suc_lessI)+

function run_name_loop :: "string list \<Rightarrow> string \<Rightarrow> nat \<Rightarrow> string" where
  "run_name_loop ann_files run_md_file_name run_id_count =
     (if run_md_file_name \<in> set ann_files
      then run_name_loop ann_files (run_name (run_id_count + 1)) (run_id_count + 1)
      else run_md_file_name)"
  by pat_completeness auto
termination
proof (relation "measure (\<lambda>(names, name, c).
          card {k. c < k \<and> run_name k \<in> set names} + (if name \<in> set names then 1 else 0))")
  show "wf (measure (\<lambda>(names, name, c).
          card {k. c < k \<and> run_name k \<in> set names} + (if name \<in> set names then 1 else 0)))"
    by simp
next
  fix ann_files :: "string list" and run_md_file_name :: string and run_id_count :: nat
  assume "run_md_file_name \<in> set ann_files"
  then show "((ann_files, run_name (run_id_count + 1), run_id_count + 1),
              (ann_files, run_md_file_name, run_id_count))
            \<in> measure (\<lambda>(names, name, c).
                card {k. c < k \<and> run_name k \<in> set names} + (if name \<in> set names then 1 else 0))"
    using finite_run_names [of "Suc run_id_count" ann_files]
    by (simp add: run_names_step [of run_id_count ann_files])
qed

declare str_nat.simps [simp del]
declare run_name_loop.simps [simp del]

subsection \<open>The method\<close>

text \<open>
  \<^verbatim>\<open>create_run(dataset, run_info)\<close> in two steps, so that the state between them can be
  named. The first step looks the dataset up (a missing dataset is \<^verbatim>\<open>None\<close>, and
  \<^verbatim>\<open>None.listAnnotations()\<close> raises), collects the names of its file annotations,
  allocates the name of the document, fills in \<^verbatim>\<open>run_info\<close> and writes the document
  into the workspace. Of the dataset assigned to \<^verbatim>\<open>run_info.processed_dataset\<close> the
  model keeps the \<^verbatim>\<open>md_uri\<close> and the \<^verbatim>\<open>uuid\<close>, the two attributes \<^verbatim>\<open>_write_run\<close>
  reads.
\<close>

definition create_run_prepare ::
  "string \<Rightarrow> Dataset \<Rightarrow> Run \<Rightarrow> world \<Rightarrow> (exn + (nat \<times> string \<times> Run)) \<times> world" where
  "create_run_prepare workspace dataset run_info w =
     (case get_object (datasets (srv w)) (c_md_uri dataset) of
        None \<Rightarrow> (Inl AttributeError, w)
      | Some (ds_id, omero_dataset) \<Rightarrow>
          (let ann_files = file_names (o_annotations omero_dataset);
               run_md_file_name = run_name_loop ann_files ''run.md.json'' 0;
               file_path = os_path_join workspace run_md_file_name;
               run_info1 = run_info\<lparr>r_processed_dataset := Container.truncate dataset,
                                     r_uuid := JStr '''', r_md_uri := JStr file_path\<rparr>
           in case write_run run_info1 (files w) of
                Inl e \<Rightarrow> (Inl e, w)
              | Inr fs' \<Rightarrow> (Inr (ds_id, file_path, run_info1), w\<lparr>files := fs'\<rparr>)))"

text \<open>
  The second step uploads the document as a file annotation, links it to the dataset,
  sets \<^verbatim>\<open>uuid\<close> and \<^verbatim>\<open>md_uri\<close> of \<^verbatim>\<open>run_info\<close> to the annotation's id and removes
  the local file.
\<close>

definition create_run_attach ::
  "nat \<Rightarrow> string \<Rightarrow> Run \<Rightarrow> world \<Rightarrow> (exn + Run) \<times> world" where
  "create_run_attach ds_id file_path run_info w =
     (case create_file_ann_from_local_file file_path w of
        (Inl e, w1) \<Rightarrow> (Inl e, w1)
      | (Inr file_ann, w1) \<Rightarrow>
          (let w2 = w1\<lparr>srv := (srv w1)\<lparr>datasets := link_annotation file_ann ds_id (datasets (srv w1))\<rparr>\<rparr>;
               run_info2 = run_info\<lparr>r_uuid := JInt (int (ann_id file_ann)),
                                     r_md_uri := JInt (int (ann_id file_ann))\<rparr>;
               w3 = w2\<lparr>files := (files w2)(file_path := None)\<rparr>
           in (Inr run_info2, w3)))"

definition create_run :: "string \<Rightarrow> Dataset \<Rightarrow> Run \<Rightarrow> world \<Rightarrow> (exn + Run) \<times> world" where
  "create_run workspace dataset run_info w =
     (case create_run_prepare workspace dataset run_info w of
        (Inl e, w1) \<Rightarrow> (Inl e, w1)
      | (Inr (ds_id, file_path, run_info1), w1) \<Rightarrow> create_run_attach ds_id file_path run_info1 w1)"

section \<open>\<^verbatim>\<open>get_raw_data\<close>\<close>

text \<open>
  Modelled from the spec: the constructor \<^verbatim>\<open>RawData()\<close> is in \<^verbatim>\<open>bioimageit_core\<close>,
  not in this repository. A fresh container has an empty \<^verbatim>\<open>key_value_pairs\<close>
  dictionary, an empty \<^verbatim>\<open>uri\<close> and the type \<^verbatim>\<open>raw\<close>. The keys and values of the
  dictionary are strings, as the pairs of a map annotation are.
\<close>

record RawData =
  rd_uuid :: json
  rd_md_uri :: json
  rd_uri :: json
  rd_type :: json
  rd_name :: json
  rd_author :: json
  rd_date :: json
  rd_format :: json
  rd_key_value_pairs :: "(string \<times> string) list"

text \<open>
  The first loop of \<^verbatim>\<open>get_raw_data\<close>: every pair of every map annotation of the
  image is stored under its key, a later pair overwriting an earlier one.
\<close>

fun read_key_value_pairs ::
  "omero_annotation list \<Rightarrow> (string \<times> string) list \<Rightarrow> (string \<times> string) list" where
  "read_key_value_pairs [] kvp = kvp"
| "read_key_value_pairs (MapAnnotation i vals # anns) kvp =
     read_key_value_pairs anns
       (fold (\<lambda>value kvp. AList.update (fst value) (snd value) kvp) vals kvp)"
| "read_key_value_pairs (_ # anns) kvp = read_key_value_pairs anns kvp"

text \<open>
  The second loop: every tag of the project is stored with the empty string for its
  value, unless the dictionary has the key already.
\<close>

fun read_experiment_tags ::
  "omero_annotation list \<Rightarrow> (string \<times> string) list \<Rightarrow> (string \<times> string) list" where
  "read_experiment_tags [] kvp = kvp"
| "read_experiment_tags (TagAnnotation i v # anns) kvp =
     read_experiment_tags anns (if map_of kvp v = None then AList.update v '''' kvp else kvp)"
| "read_experiment_tags (_ # anns) kvp = read_experiment_tags anns kvp"

text \<open>
  \<^verbatim>\<open>get_raw_data(md_uri)\<close>. The method reads the server only. A missing image, an
  image in no dataset or a dataset in no project makes an attribute access on
  \<^verbatim>\<open>None\<close>. The date is the creation time formatted by \<^verbatim>\<open>strftime\<close> in the local
  time zone, a parameter here.
\<close>

definition get_raw_data :: "(int \<Rightarrow> string) \<Rightarrow> json \<Rightarrow> omero_server \<Rightarrow> exn + RawData" where
  "get_raw_data format_date md_uri s =
     (case get_object (images s) md_uri of
        None \<Rightarrow> Inl AttributeError
      | Some (i, img) \<Rightarrow>
          (let container =
                 \<lparr>rd_uuid = md_uri, rd_md_uri = md_uri, rd_uri = md_uri, rd_type = JStr ''raw'',
                  rd_name = o_name img, rd_author = o_owner img,
                  rd_date = JStr (format_date (o_time img)), rd_format = JStr ''imagetiff'',
                  rd_key_value_pairs = read_key_value_pairs (o_annotations img) []\<rparr>
           in case o_parent img of
                None \<Rightarrow> Inl AttributeError
              | Some d \<Rightarrow>
                 (case datasets s d of
                    None \<Rightarrow> Inl AttributeError
                  | Some dataset \<Rightarrow>
                     (case o_parent dataset of
                        None \<Rightarrow> Inl AttributeError
                      | Some p \<Rightarrow>
                         (case projects s p of
                            None \<Rightarrow> Inl AttributeError
                          | Some project \<Rightarrow>
                              Inr (container\<lparr>rd_key_value_pairs :=
                                     read_experiment_tags (o_annotations project)
                                       (rd_key_value_pairs container)\<rparr>))))))"

subsection \<open>Vocabulary for the merge\<close>

text \<open>
  The item-level pairs of an image, in the order of its annotations; the tags of a
  project; and the merge of the specification: the last item-level value of a key if
  there is one, otherwise the empty string if the key is a tag.
\<close>

fun item_level_pairs :: "omero_annotation list \<Rightarrow> (string \<times> string) list" where
  "item_level_pairs [] = []"
| "item_level_pairs (MapAnnotation i vals # anns) = vals @ item_level_pairs anns"
| "item_level_pairs (_ # anns) = item_level_pairs anns"

fun tag_values :: "omero_annotation list \<Rightarrow> string list" where
  "tag_values [] = []"
| "tag_values (TagAnnotation i v # anns) = v # tag_values anns"
| "tag_values (_ # anns) = tag_values anns"

definition merged_key_value :: "(string \<times> string) list \<Rightarrow> string list \<Rightarrow> string \<Rightarrow> string option" where
  "merged_key_value item_level tags k =
     (case map_of (rev item_level) k of
        Some v \<Rightarrow> Some v
      | None \<Rightarrow> if k \<in> set tags then Some '''' else None)"

section \<open>\<^verbatim>\<open>import_data\<close>\<close>

record DatasetInfo =
  di_name :: json
  di_url :: json
  di_uuid :: json

record Experiment =
  e_uuid :: json
  e_md_uri :: json
  e_name :: json
  e_author :: json
  e_date :: json
  e_keys :: "string list"
  e_raw_dataset :: "DatasetInfo option"
  e_processed_datasets :: "DatasetInfo list"

text \<open>
  The calls \<^verbatim>\<open>import_data\<close> makes on the server, through \<^verbatim>\<open>self._conn\<close> or through the
  client \<^verbatim>\<open>main_import\<close> opens, in the order it makes them.
\<close>

datatype remote_call =
    GetObject string json
  | MainImport string
  | SaveDatasetImageLink json nat
  | SaveMapAnnotation "(string \<times> string) list"
  | LinkAnnotation nat nat

text \<open>
  Saving the link between the raw dataset and the imported image; the server refuses a
  link to an object it does not have.
\<close>

definition link_image_to_dataset :: "json \<Rightarrow> nat \<Rightarrow> omero_server \<Rightarrow> exn + omero_server" where
  "link_image_to_dataset dataset_id image_id s =
     (case get_object (datasets s) dataset_id of
        None \<Rightarrow> Inl ServerError
      | Some (d, dataset) \<Rightarrow>
         (case images s image_id of
            None \<Rightarrow> Inl ServerError
          | Some img \<Rightarrow> Inr (s\<lparr>images := (images s)(image_id \<mapsto> img\<lparr>o_parent := Some d\<rparr>)\<rparr>)))"

text \<open>The message \<^verbatim>\<open>f'OMERO service can only import tiff images (format={format_})'\<close>.\<close>

definition unsupported_format_message :: "string \<Rightarrow> string" where
  "unsupported_format_message fmt =
     ''OMERO service can only import tiff images (format='' @ fmt @ '')''"

text \<open>The key-value pairs become one map annotation, linked to the imported image.\<close>

definition import_key_value_pairs ::
  "nat \<Rightarrow> (string \<times> string) list \<Rightarrow> omero_server \<Rightarrow> (exn + unit) \<times> omero_server \<times> remote_call list" where
  "import_key_value_pairs image_id key_value_pairs s =
     (if length key_value_pairs \<noteq> 0 then
        (let keys_value_list = key_value_pairs
         in if length keys_value_list > 0 then
              (let map_ann = MapAnnotation (next_id s) keys_value_list;
                   s1 = s\<lparr>next_id := next_id s + 1\<rparr>
               in case get_object (images s1) (JInt (int image_id)) of
                    None \<Rightarrow> (Inl AttributeError, s1,
                               [SaveMapAnnotation keys_value_list,
                                GetObject ''Image'' (JInt (int image_id))])
                  | Some (i, img) \<Rightarrow>
                      (Inr (), s1\<lparr>images := link_annotation map_ann i (images s1)\<rparr>,
                       [SaveMapAnnotation keys_value_list, GetObject ''Image'' (JInt (int image_id)),
                        LinkAnnotation i (ann_id map_ann)]))
            else (Inr (), s, []))
      else (Inr (), s, []))"

text \<open>
  \<^verbatim>\<open>import_data(experiment, data_path, name, author, format_, date, key_value_pairs)\<close>,
  with the source's \<^verbatim>\<open>format_\<close> written \<open>fmt\<close>. It returns the result, the server and
  the calls made. The upload done by \<^verbatim>\<open>main_import\<close> depends on the pixel data and the
  server's importer; it is a parameter that returns the id of the new image. The order is
  the source's: the raw dataset is looked up first, the format is tested after.
\<close>

definition import_data ::
  "(string \<Rightarrow> omero_server \<Rightarrow> exn + nat \<times> omero_server) \<Rightarrow>
   Experiment \<Rightarrow> string \<Rightarrow> json \<Rightarrow> json \<Rightarrow> string \<Rightarrow> json \<Rightarrow> (string \<times> string) list \<Rightarrow>
   omero_server \<Rightarrow> (exn + RawData) \<times> omero_server \<times> remote_call list" where
  "import_data main_import experiment data_path name author fmt date key_value_pairs s =
     (case e_raw_dataset experiment of
        None \<Rightarrow> (Inl AttributeError, s, [])
      | Some raw_dataset \<Rightarrow>
         (let raw_dataset_id = di_url raw_dataset;
              calls1 = [GetObject ''Dataset'' raw_dataset_id]
          in if fmt = ''imagetiff'' then
               (case main_import data_path s of
                  Inl e \<Rightarrow> (Inl e, s, calls1 @ [MainImport data_path])
                | Inr (image_id, s1) \<Rightarrow>
                   (let calls2 = calls1 @ [MainImport data_path, SaveDatasetImageLink raw_dataset_id image_id]
                    in case link_image_to_dataset raw_dataset_id image_id s1 of
                         Inl e \<Rightarrow> (Inl e, s1, calls2)
                       | Inr s2 \<Rightarrow>
                          (case import_key_value_pairs image_id key_value_pairs s2 of
                             (Inl e, s3, calls3) \<Rightarrow> (Inl e, s3, calls2 @ calls3)
                           | (Inr u, s3, calls3) \<Rightarrow>
                               (Inr \<lparr>rd_uuid = JInt (int image_id), rd_md_uri = JInt (int image_id),
                                     rd_uri = JStr '''', rd_type = JStr ''raw'', rd_name = name,
                                     rd_author = author, rd_date = date, rd_format = JStr fmt,
                                     rd_key_value_pairs = key_value_pairs\<rparr>,
                                s3, calls2 @ calls3))))
             else (Inl (DataServiceError (unsupported_format_message fmt)), s, calls1)))"

section \<open>The origin document of a processed data\<close>

text \<open>
  Modelled from the spec: the constructor \<^verbatim>\<open>ProcessedData()\<close> and the constant
  \<^verbatim>\<open>METADATA_TYPE_PROCESSED\<close> are in \<^verbatim>\<open>bioimageit_core\<close>, not in this repository. The
  constant is the string \<^verbatim>\<open>processed\<close>; a fresh container has no run, no inputs and
  an empty \<^verbatim>\<open>output\<close> dictionary (an absent name or label means not recorded).
\<close>

record ProcessedDataInputContainer =
  pi_name :: json
  pi_uri :: json
  pi_uuid :: json
  pi_type :: json

record ProcessedData =
  pd_uuid :: json
  pd_md_uri :: json
  pd_name :: json
  pd_author :: json
  pd_date :: json
  pd_format :: json
  pd_uri :: json
  pd_run :: "Container option"
  pd_inputs :: "ProcessedDataInputContainer list"
  pd_output :: "(string \<times> json) list"

definition METADATA_TYPE_PROCESSED :: string where
  "METADATA_TYPE_PROCESSED = ''processed''"

definition new_ProcessedData :: ProcessedData where
  "new_ProcessedData =
     \<lparr>pd_uuid = JStr '''', pd_md_uri = JStr '''', pd_name = JStr '''', pd_author = JStr '''',
      pd_date = JStr '''', pd_format = JStr '''', pd_uri = JStr '''',
      pd_run = None, pd_inputs = [], pd_output = []\<rparr>"

subsection \<open>\<^verbatim>\<open>get_processed_data\<close>\<close>

text \<open>
  \<^verbatim>\<open>_omero_download_image_md_attachments\<close> writes every file annotation of the image
  whose name ends with \<^verbatim>\<open>.md.json\<close> into the destination directory, and raises when
  there is none.
\<close>

definition endswith :: "string \<Rightarrow> string \<Rightarrow> bool" where
  "endswith s suffix = (length suffix \<le> length s \<and> drop (length s - length suffix) s = suffix)"

fun download_md_attachments ::
  "omero_annotation list \<Rightarrow> string \<Rightarrow> bool \<Rightarrow> filesystem \<Rightarrow> bool \<times> filesystem" where
  "download_md_attachments [] destination_path md_found fs = (md_found, fs)"
| "download_md_attachments (FileAnnotation i n content # anns) destination_path md_found fs =
     (if endswith n ''.md.json''
      then download_md_attachments anns destination_path True
             (fs(os_path_join destination_path n \<mapsto> content))
      else download_md_attachments anns destination_path md_found fs)"
| "download_md_attachments (_ # anns) destination_path md_found fs =
     download_md_attachments anns destination_path md_found fs"

definition omero_download_image_md_attachments ::
  "omero_object \<Rightarrow> string \<Rightarrow> filesystem \<Rightarrow> (exn + unit) \<times> filesystem" where
  "omero_download_image_md_attachments img destination_path fs =
     (case download_md_attachments (o_annotations img) destination_path False fs of
        (md_found, fs') \<Rightarrow>
          if \<not> md_found
          then (Inl (DataServiceError ''Cannot found the metadata file for image:''), fs')
          else (Inr (), fs'))"

text \<open>The inputs of the origin, appended to the container's list one by one.\<close>

definition parse_origin_input :: "json \<Rightarrow> exn + ProcessedDataInputContainer" where
  "parse_origin_input input =
     and_then (py_getitem input ''name'') (\<lambda>n.
     and_then (py_getitem input ''url'') (\<lambda>u.
     and_then (py_getitem input ''uuid'') (\<lambda>uu.
     and_then (py_getitem input ''type'') (\<lambda>t.
       Inr \<lparr>pi_name = n, pi_uri = u, pi_uuid = uu, pi_type = t\<rparr>))))"

fun parse_origin_inputs ::
  "json list \<Rightarrow> ProcessedDataInputContainer list \<Rightarrow> exn + ProcessedDataInputContainer list" where
  "parse_origin_inputs [] acc = Inr acc"
| "parse_origin_inputs (input # rest) acc =
     and_then (parse_origin_input input) (\<lambda>i. parse_origin_inputs rest (acc @ [i]))"

text \<open>
  \<^verbatim>\<open>if key in metadata['origin']['output']: container.output[key] = metadata['origin']['output'][key]\<close>,
  for \<^verbatim>\<open>name\<close> and for \<^verbatim>\<open>label\<close>.
\<close>

definition read_origin_output_key ::
  "string \<Rightarrow> json \<Rightarrow> (string \<times> json) list \<Rightarrow> exn + (string \<times> json) list" where
  "read_origin_output_key key metadata output =
     and_then (py_getitem metadata ''origin'') (\<lambda>origin.
     and_then (py_getitem origin ''output'') (\<lambda>out.
     and_then (py_contains key out) (\<lambda>present.
       if present then
         and_then (py_getitem metadata ''origin'') (\<lambda>origin2.
         and_then (py_getitem origin2 ''output'') (\<lambda>out2.
         and_then (py_getitem out2 key) (\<lambda>v. Inr (AList.update key v output))))
       else Inr output)))"

text \<open>The part of \<^verbatim>\<open>get_processed_data\<close> that reads the document into the container.\<close>

definition parse_processed_data :: "ProcessedData \<Rightarrow> json \<Rightarrow> exn + ProcessedData" where
  "parse_processed_data container metadata =
     and_then (py_getitem metadata ''origin'') (\<lambda>o1.
     and_then (py_getitem o1 ''run'') (\<lambda>r1.
     and_then (py_getitem r1 ''url'') (\<lambda>run_url.
     and_then (py_getitem metadata ''origin'') (\<lambda>o2.
     and_then (py_getitem o2 ''run'') (\<lambda>r2.
     and_then (py_getitem r2 ''uuid'') (\<lambda>run_uuid.
     and_then (py_getitem metadata ''origin'') (\<lambda>o3.
     and_then (py_getitem o3 ''inputs'') (\<lambda>ins.
     and_then (py_iter ins) (\<lambda>in_items.
     and_then (parse_origin_inputs in_items (pd_inputs container)) (\<lambda>inputs.
     and_then (read_origin_output_key ''name'' metadata (pd_output container)) (\<lambda>output1.
     and_then (read_origin_output_key ''label'' metadata output1) (\<lambda>output2.
       Inr (container\<lparr>pd_run := Some \<lparr>c_md_uri = run_url, c_uuid = run_uuid\<rparr>,
                        pd_inputs := inputs, pd_output := output2\<rparr>)))))))))))))"

text \<open>
  \<^verbatim>\<open>get_processed_data(md_uri)\<close> returns \<^verbatim>\<open>None\<close> for a missing image. Otherwise it
  downloads the attachments into the workspace, reads \<^verbatim>\<open>processed_data.md.json\<close> there
  and removes that file. An exception leaves the downloaded files behind.
\<close>

definition get_processed_data ::
  "string \<Rightarrow> (int \<Rightarrow> string) \<Rightarrow> json \<Rightarrow> world \<Rightarrow> (exn + ProcessedData option) \<times> world" where
  "get_processed_data workspace format_date md_uri w =
     (case get_object (images (srv w)) md_uri of
        None \<Rightarrow> (Inr None, w)
      | Some (i, img) \<Rightarrow>
          (let container = new_ProcessedData
                 \<lparr>pd_uuid := JInt (int i), pd_md_uri := JInt (int i), pd_name := o_name img,
                  pd_author := o_owner img, pd_date := JStr (format_date (o_time img)),
                  pd_format := JStr ''imagetiff'', pd_uri := JInt (int i)\<rparr>;
               md_json_file = os_path_join workspace ''processed_data.md.json''
           in case omero_download_image_md_attachments img workspace (files w) of
                (Inl e, fs1) \<Rightarrow> (Inl e, w\<lparr>files := fs1\<rparr>)
              | (Inr u, fs1) \<Rightarrow>
                 (case and_then (read_json md_json_file fs1) (parse_processed_data container) of
                    Inl e \<Rightarrow> (Inl e, w\<lparr>files := fs1\<rparr>)
                  | Inr container' \<Rightarrow>
                      (Inr (Some container'), w\<lparr>files := fs1(md_json_file := None)\<rparr>))))"

subsection \<open>\<^verbatim>\<open>update_processed_data\<close>\<close>

definition origin_input_entry :: "ProcessedDataInputContainer \<Rightarrow> json" where
  "origin_input_entry input =
     JObj [(''name'', pi_name input), (''url'', pi_uri input),
           (''uuid'', pi_uuid input), (''type'', pi_type input)]"

text \<open>\<^verbatim>\<open>processed_data.output[key]\<close> on the container's dictionary.\<close>

definition dict_getitem :: "(string \<times> json) list \<Rightarrow> string \<Rightarrow> exn + json" where
  "dict_getitem d k = (case map_of d k of None \<Rightarrow> Inl (KeyError k) | Some v \<Rightarrow> Inr v)"

text \<open>
  The dictionary \<^verbatim>\<open>update_processed_data\<close> builds: the run (an attribute access on
  \<^verbatim>\<open>None\<close> raises), the inputs, then \<^verbatim>\<open>output['name']\<close> and \<^verbatim>\<open>output['label']\<close>,
  both read without a test.
\<close>

definition processed_data_metadata :: "ProcessedData \<Rightarrow> exn + json" where
  "processed_data_metadata processed_data =
     (case pd_run processed_data of
        None \<Rightarrow> Inl AttributeError
      | Some run \<Rightarrow>
          and_then (dict_getitem (pd_output processed_data) ''name'') (\<lambda>out_name.
          and_then (dict_getitem (pd_output processed_data) ''label'') (\<lambda>out_label.
            Inr (JObj [(''origin'',
                   JObj [(''type'', JStr METADATA_TYPE_PROCESSED),
                         (''run'', JObj [(''url'', c_md_uri run), (''uuid'', c_uuid run)]),
                         (''inputs'', JList (map origin_input_entry (pd_inputs processed_data))),
                         (''output'', JObj [(''name'', out_name), (''label'', out_label)])])]))))"

text \<open>The ids of the file annotations named \<^verbatim>\<open>processed_data.md.json\<close>.\<close>

fun origin_annotation_ids :: "omero_annotation list \<Rightarrow> nat list" where
  "origin_annotation_ids [] = []"
| "origin_annotation_ids (FileAnnotation i n content # anns) =
     (if n = ''processed_data.md.json'' then i # origin_annotation_ids anns
      else origin_annotation_ids anns)"
| "origin_annotation_ids (_ # anns) = origin_annotation_ids anns"

text \<open>
  \<^verbatim>\<open>update_processed_data(processed_data)\<close>: the image is renamed and saved (the date it
  also assigns is not a field of the model), the document is written into the workspace,
  the file annotations of the image named \<^verbatim>\<open>processed_data.md.json\<close> are deleted, the
  new document is uploaded and linked, and the local file is removed. An exception after
  the save leaves the renamed image behind.
\<close>

definition update_processed_data :: "string \<Rightarrow> ProcessedData \<Rightarrow> world \<Rightarrow> (exn + unit) \<times> world" where
  "update_processed_data workspace processed_data w =
     (case get_object (images (srv w)) (pd_md_uri processed_data) of
        None \<Rightarrow> (Inl AttributeError, w)
      | Some (i, img) \<Rightarrow>
          (let img1 = img\<lparr>o_name := pd_name processed_data\<rparr>;
               w1 = w\<lparr>srv := (srv w)\<lparr>images := (images (srv w))(i \<mapsto> img1)\<rparr>\<rparr>
           in case processed_data_metadata processed_data of
                Inl e \<Rightarrow> (Inl e, w1)
              | Inr metadata \<Rightarrow>
                 (let md_json_file = os_path_join workspace ''processed_data.md.json'';
                      w2 = w1\<lparr>files := write_json metadata md_json_file (files w1)\<rparr>;
                      to_delete = origin_annotation_ids (o_annotations img1);
                      w3 = (if length to_delete > 0
                            then w2\<lparr>srv := delete_annotations to_delete (srv w2)\<rparr> else w2)
                  in case create_file_ann_from_local_file md_json_file w3 of
                       (Inl e, w4) \<Rightarrow> (Inl e, w4)
                     | (Inr file_ann, w4) \<Rightarrow>
                        (Inr (),
                         w4\<lparr>srv := (srv w4)\<lparr>images := link_annotation file_ann i (images (srv w4))\<rparr>,
                            files := (files w4)(md_json_file := None)\<rparr>))))"

section \<open>The service builder\<close>

text \<open>
  \<^verbatim>\<open>OmeroMetadataServiceBuilder\<close> keeps the service it has built in \<^verbatim>\<open>self._instance\<close>.
  Objects have an identity: the services built so far are a list, and a reference to a
  service is its position in the list. The constructor of the service connects to the
  server and raises when \<^verbatim>\<open>connect()\<close> returns false; the answer of the server is a
  parameter. A service object is always true in a condition (the class defines neither
  \<^verbatim>\<open>__bool__\<close> nor \<^verbatim>\<open>__len__\<close>), so \<^verbatim>\<open>not self._instance\<close> holds exactly when the
  attribute is \<^verbatim>\<open>None\<close>.
\<close>

record OmeroMetadataService =
  service_name :: string
  s_host :: json
  s_port :: json
  s_username :: json
  s_password :: json

record interpreter =
  services :: "OmeroMetadataService list"
  builder_instance :: "nat option"

definition OmeroMetadataService_init ::
  "(json \<Rightarrow> json \<Rightarrow> json \<Rightarrow> json \<Rightarrow> bool) \<Rightarrow> json \<Rightarrow> json \<Rightarrow> json \<Rightarrow> json \<Rightarrow>
   interpreter \<Rightarrow> (exn + nat) \<times> interpreter" where
  "OmeroMetadataService_init connect host port username password st =
     (if \<not> connect host port username password
      then (Inl (DataServiceError ''Unable to connect to the Omero database''), st)
      else (Inr (length (services st)),
            st\<lparr>services := services st @
                  [\<lparr>service_name = ''OmeroMetadataService'', s_host = host, s_port = port,
                    s_username = username, s_password = password\<rparr>]\<rparr>))"

definition builder_call ::
  "(json \<Rightarrow> json \<Rightarrow> json \<Rightarrow> json \<Rightarrow> bool) \<Rightarrow> json \<Rightarrow> json \<Rightarrow> json \<Rightarrow> json \<Rightarrow>
   interpreter \<Rightarrow> (exn + nat) \<times> interpreter" where
  "builder_call connect host port username password st =
     (case builder_instance st of
        None \<Rightarrow>
          (case OmeroMetadataService_init connect host port username password st of
             (Inl e, st') \<Rightarrow> (Inl e, st')
           | (Inr instance, st') \<Rightarrow> (Inr instance, st'\<lparr>builder_instance := Some instance\<rparr>))
      | Some instance \<Rightarrow> (Inr instance, st))"

text \<open>A sequence of calls of the builder, each with its own arguments.\<close>

fun builder_calls ::
  "(json \<Rightarrow> json \<Rightarrow> json \<Rightarrow> json \<Rightarrow> bool) \<Rightarrow> (json \<times> json \<times> json \<times> json) list \<Rightarrow>
   interpreter \<Rightarrow> (exn + nat) list \<times> interpreter" where
  "builder_calls connect [] st = ([], st)"
| "builder_calls connect ((host, port, username, password) # rest) st =
     (case builder_call connect host port username password st of
        (r, st') \<Rightarrow> (case builder_calls connect rest st' of (rs, st'') \<Rightarrow> (r # rs, st'')))"

section \<open>Examples\<close>

text \<open>
  One run, and one server: a project tagged \<^verbatim>\<open>stain\<close> and \<^verbatim>\<open>time\<close>; its dataset, which
  holds the run documents \<^verbatim>\<open>run.md.json\<close> and \<^verbatim>\<open>run_1.md.json\<close>; a raw image annotated
  with \<^verbatim>\<open>stain\<close> \<open>\<mapsto>\<close> \<^verbatim>\<open>DAPI\<close>; and a processed image with two attachments named
  \<^verbatim>\<open>processed_data.md.json\<close>, the second an origin document whose output has a name and
  no label.
\<close>

definition example_numeric_inputs_document :: json where
  "example_numeric_inputs_document =
     JObj [(''uuid'', JStr ''x''),
           (''process'', JObj [(''name'', JStr ''p''), (''url'', JStr ''u'')]),
           (''processed_dataset'', JObj [(''uuid'', JStr ''d''), (''url'', JStr ''d'')]),
           (''inputs'', JInt 7),
           (''parameters'', JList [])]"

definition example_run :: Run where
  "example_run =
     \<lparr>r_uuid = JStr '''', r_md_uri = JStr ''/workspace/run.md.json'',
      r_process_name = JStr ''threshold'', r_process_uri = JStr ''/tools/threshold.xml'',
      r_processed_dataset = \<lparr>c_md_uri = JInt 12, c_uuid = JInt 12\<rparr>,
      r_inputs = [\<lparr>ri_name = JStr ''i'', ri_dataset = JStr ''data'', ri_query = JStr '''',
                   ri_origin_output_name = JStr ''''\<rparr>],
      r_parameters = [\<lparr>rp_name = JStr ''sigma'', rp_value = JInt 2\<rparr>]\<rparr>"

definition example_project_object :: omero_object where
  "example_project_object =
     \<lparr>o_name = JStr ''exp'', o_owner = JStr ''root'', o_time = 0, o_parent = None,
      o_annotations = [TagAnnotation 2 ''stain'', TagAnnotation 3 ''time'']\<rparr>"

definition example_dataset_object :: omero_object where
  "example_dataset_object =
     \<lparr>o_name = JStr ''data'', o_owner = JStr ''root'', o_time = 0, o_parent = Some 1,
      o_annotations = [FileAnnotation 7 ''run.md.json'' EmptyFile,
                       TagAnnotation 8 ''stain'',
                       FileAnnotation 9 ''run_1.md.json'' EmptyFile]\<rparr>"

definition example_raw_image :: omero_object where
  "example_raw_image =
     \<lparr>o_name = JStr ''cells.tif'', o_owner = JStr ''root'', o_time = 0, o_parent = Some 12,
      o_annotations = [MapAnnotation 4 [(''stain'', ''DAPI'')]]\<rparr>"

definition example_origin_document :: json where
  "example_origin_document =
     JObj [(''origin'',
       JObj [(''type'', JStr ''processed''),
             (''run'', JObj [(''url'', JInt 9), (''uuid'', JInt 9)]),
             (''inputs'', JList [JObj [(''name'', JStr ''i''), (''url'', JInt 30),
                                       (''uuid'', JInt 30), (''type'', JStr ''raw'')]]),
             (''output'', JObj [(''name'', JStr ''o'')])])]"

definition example_processed_image :: omero_object where
  "example_processed_image =
     \<lparr>o_name = JStr ''cells_denoised.tif'', o_owner = JStr ''root'', o_time = 0,
      o_parent = Some 12,
      o_annotations = [FileAnnotation 5 ''processed_data.md.json'' EmptyFile,
                       FileAnnotation 6 ''processed_data.md.json''
                         (JsonText example_origin_document)]\<rparr>"

definition example_world :: world where
  "example_world =
     \<lparr>srv = \<lparr>projects = [1 \<mapsto> example_project_object],
              datasets = [12 \<mapsto> example_dataset_object],
              images = [30 \<mapsto> example_raw_image, 31 \<mapsto> example_processed_image],
              next_id = 20\<rparr>,
      files = Map.empty\<rparr>"

definition example_dataset :: Dataset where
  "example_dataset = \<lparr>c_md_uri = JInt 12, c_uuid = JInt 12, ds_name = JStr ''data'', ds_uris = []\<rparr>"

definition example_main_import :: "string \<Rightarrow> omero_server \<Rightarrow> exn + nat \<times> omero_server" where
  "example_main_import data_path s = Inl ServerError"

definition example_experiment :: Experiment where
  "example_experiment =
     \<lparr>e_uuid = JInt 1, e_md_uri = JInt 1, e_name = JStr ''exp'', e_author = JStr ''root'',
      e_date = JStr ''now'', e_keys = [''stain'', ''time''],
      e_raw_dataset = Some \<lparr>di_name = JStr ''data'', di_url = JInt 12, di_uuid = JInt 12\<rparr>,
      e_processed_datasets = []\<rparr>"

definition example_format_date :: "int \<Rightarrow> string" where
  "example_format_date time_stamp = ''1970-01-01''"

definition example_processed_data :: ProcessedData where
  "example_processed_data =
     \<lparr>pd_uuid = JInt 31, pd_md_uri = JInt 31, pd_name = JStr ''cells_denoised.tif'',
      pd_author = JStr ''root'', pd_date = JStr ''1970-01-01'', pd_format = JStr ''imagetiff'',
      pd_uri = JInt 31, pd_run = Some \<lparr>c_md_uri = JInt 9, c_uuid = JInt 9\<rparr>,
      pd_inputs = [\<lparr>pi_name = JStr ''i'', pi_uri = JInt 30, pi_uuid = JInt 30, pi_type = JStr ''raw''\<rparr>],
      pd_output = [(''name'', JStr ''o'')]\<rparr>"

definition example_labelled_data :: ProcessedData where
  "example_labelled_data =
     example_processed_data\<lparr>pd_output := [(''name'', JStr ''o''), (''label'', JStr ''Denoised'')]\<rparr>"

definition example_connect :: "json \<Rightarrow> json \<Rightarrow> json \<Rightarrow> json \<Rightarrow> bool" where
  "example_connect host port username password = (password = JStr ''secret'')"

definition example_interpreter :: interpreter where
  "example_interpreter = \<lparr>services = [], builder_instance = None\<rparr>"

definition example_interpreter1 :: interpreter where
  "example_interpreter1 =
     \<lparr>services = [\<lparr>service_name = ''OmeroMetadataService'', s_host = JStr ''omero.example.org'',
                   s_port = JInt 4064, s_username = JStr ''root'', s_password = JStr ''secret''\<rparr>],
      builder_instance = Some 0\<rparr>"

section \<open>Properties of the run document\<close>

lemma and_then_Inr: "and_then m f = Inr y \<longleftrightarrow> (\<exists>x. m = Inr x \<and> f x = Inr y)"
  by (cases m) (simp_all add: and_then_def)

lemma and_then_Inl: "and_then m f = Inl e \<longleftrightarrow> (m = Inl e \<or> (\<exists>x. m = Inr x \<and> f x = Inl e))"
  by (cases m) (simp_all add: and_then_def)

lemma parse_run_inputs_entries:
  "parse_run_inputs (map run_input_entry xs) acc = Inr (acc @ xs)"
  by (induction xs arbitrary: acc)
     (simp_all add: parse_run_input_def run_input_entry_def and_then_def)

lemma parse_run_parameters_entries:
  "parse_run_parameters (map run_parameter_entry xs) acc = Inr (acc @ xs)"
  by (induction xs arbitrary: acc)
     (simp_all add: parse_run_parameter_def run_parameter_entry_def and_then_def)

lemma parse_run_metadata_run_metadata:
  "parse_run_metadata path (run_metadata run) = Inr (run\<lparr>r_md_uri := JStr path\<rparr>)"
  by (simp add: parse_run_metadata_def run_metadata_def and_then_def
      parse_run_inputs_entries parse_run_parameters_entries)

text \<open>
  C1. A run whose inputs and parameters lists are not empty and whose \<^verbatim>\<open>md_uri\<close> is
  the path of its document is written by \<^verbatim>\<open>_write_run\<close>, and \<^verbatim>\<open>_parse_run\<close> on
  the written file returns the same run: every field is equal, the inputs and the
  parameters are in the same order, and so the uuid, the process name and url and the
  uuid and url of the processed dataset are unchanged.
\<close>

theorem run_round_trip:
  assumes "r_inputs run \<noteq> []" and "r_parameters run \<noteq> []" and "r_md_uri run = JStr path"
  shows "\<exists>fs'. write_run run fs = Inr fs' \<and> parse_run path fs' = Inr run"
proof -
  have w: "write_run run fs = Inr (write_json (run_metadata run) path fs)"
    using assms(3) by (simp add: write_run_def)
  have "parse_run path (write_json (run_metadata run) path fs)
          = parse_run_metadata path (run_metadata run)"
    by (simp add: parse_run_def read_json_def write_json_def and_then_def)
  also have "\<dots> = Inr (run\<lparr>r_md_uri := JStr path\<rparr>)"
    by (rule parse_run_metadata_run_metadata)
  also have "run\<lparr>r_md_uri := JStr path\<rparr> = run"
    using assms(3) by simp
  finally show ?thesis using w by simp
qed

theorem run_round_trip_witness:
  "r_inputs example_run \<noteq> [] \<and> r_parameters example_run \<noteq> []
   \<and> r_md_uri example_run = JStr ''/workspace/run.md.json''
   \<and> (\<exists>fs'. write_run example_run Map.empty = Inr fs'
        \<and> parse_run ''/workspace/run.md.json'' fs' = Inr example_run)"
  using run_round_trip [of example_run "''/workspace/run.md.json''" Map.empty]
  by (simp add: example_run_def)

text \<open>
  C8, as the code has it. \<^verbatim>\<open>_write_run\<close> puts each parameter's \<^verbatim>\<open>value\<close> into the
  document as it is in memory, without converting it to text: the \<^verbatim>\<open>parameters\<close>
  entry of the document is the list of the parameters' entries in order, and the
  \<^verbatim>\<open>value\<close> of an entry is the parameter's value itself. It is a JSON string exactly
  when the value in memory is a string.
\<close>

theorem parameter_value_written_unchanged:
  "py_getitem (run_metadata run) ''parameters''
     = Inr (JList (map run_parameter_entry (r_parameters run)))
   \<and> py_getitem (run_parameter_entry parameter) ''value'' = Inr (rp_value parameter)"
  by (simp add: run_metadata_def run_parameter_entry_def)

text \<open>
  C8 as stated fails: the parameter \<^verbatim>\<open>sigma\<close> of the example run has the integer 2
  for its value, and its entry in the encoded document holds the number 2, not a string.
\<close>

theorem numeric_parameter_value_counterexample:
  "py_getitem (run_metadata example_run) ''parameters''
     = Inr (JList [JObj [(''name'', JStr ''sigma''), (''value'', JInt 2)]])"
  by (simp add: run_metadata_def run_parameter_entry_def example_run_def)

lemma py_getitem_error: "py_getitem j k = Inl e \<Longrightarrow> runtime_error e"
  by (cases j) (auto split: option.splits)

lemma py_iter_error: "py_iter j = Inl e \<Longrightarrow> runtime_error e"
  by (cases j) auto

lemma parse_run_input_error: "parse_run_input x = Inl e \<Longrightarrow> runtime_error e"
  by (auto simp: parse_run_input_def and_then_Inl dest: py_getitem_error)

lemma parse_run_parameter_error: "parse_run_parameter x = Inl e \<Longrightarrow> runtime_error e"
  by (auto simp: parse_run_parameter_def and_then_Inl dest: py_getitem_error)

lemma parse_run_inputs_error: "parse_run_inputs xs acc = Inl e \<Longrightarrow> runtime_error e"
  by (induction xs arbitrary: acc) (auto simp: and_then_Inl dest: parse_run_input_error)

lemma parse_run_parameters_error: "parse_run_parameters xs acc = Inl e \<Longrightarrow> runtime_error e"
  by (induction xs arbitrary: acc) (auto simp: and_then_Inl dest: parse_run_parameter_error)

lemma parse_run_metadata_error: "parse_run_metadata p doc = Inl e \<Longrightarrow> runtime_error e"
  unfolding parse_run_metadata_def and_then_Inl
  by (auto dest: py_getitem_error py_iter_error parse_run_inputs_error parse_run_parameters_error)

lemma parse_run_inputs_keys:
  "parse_run_inputs xs acc = Inr ys \<Longrightarrow> \<not> lacks_key run_input_keys xs"
  by (induction xs arbitrary: acc)
     (auto simp: lacks_key_def run_input_keys_def and_then_Inr parse_run_input_def)

lemma parse_run_parameters_keys:
  "parse_run_parameters xs acc = Inr ys \<Longrightarrow> \<not> lacks_key run_parameter_keys xs"
  by (induction xs arbitrary: acc)
     (auto simp: lacks_key_def run_parameter_keys_def and_then_Inr parse_run_parameter_def)

lemma iterated_items_accepted:
  assumes "py_iter v = Inr items" and "\<not> lacks_key keys items" and "keys \<noteq> []"
  shows "\<not> rejected_items keys v"
proof (cases v)
  case (JList xs)
  then show ?thesis using assms by (simp add: rejected_items_def)
next
  case (JStr s)
  have "s = []"
  proof (cases s)
    case (Cons c cs)
    then have "lacks_key keys items"
      using assms(1,3) JStr by (cases keys) (auto simp: lacks_key_def)
    then show ?thesis using assms(2) by simp
  qed simp
  then show ?thesis using JStr by (simp add: rejected_items_def)
next
  case (JObj kvs)
  have "kvs = []"
  proof (cases kvs)
    case (Cons kv rest)
    then have "lacks_key keys items"
      using assms(1,3) JObj by (cases keys) (auto simp: lacks_key_def)
    then show ?thesis using assms(2) by simp
  qed simp
  then show ?thesis using JObj by (simp add: rejected_items_def)
qed (use assms(1) in simp_all)

lemma parse_run_metadata_well_formed:
  assumes "parse_run_metadata p doc = Inr run"
  shows "\<not> malformed_run_document doc"
proof -
  from assms obtain uuid p1 pn pu d1 du dd ins in_items inputs ps p_items parameters where
    h: "py_getitem doc ''uuid'' = Inr uuid" "py_getitem doc ''process'' = Inr p1"
       "py_getitem p1 ''name'' = Inr pn" "py_getitem p1 ''url'' = Inr pu"
       "py_getitem doc ''processed_dataset'' = Inr d1"
       "py_getitem d1 ''url'' = Inr du" "py_getitem d1 ''uuid'' = Inr dd"
       "py_getitem doc ''inputs'' = Inr ins" "py_iter ins = Inr in_items"
       "parse_run_inputs in_items [] = Inr inputs"
       "py_getitem doc ''parameters'' = Inr ps" "py_iter ps = Inr p_items"
       "parse_run_parameters p_items [] = Inr parameters"
    unfolding parse_run_metadata_def and_then_Inr by auto
  have a: "\<not> list_ex (\<lambda>ks. isl (get_path doc ks)) run_required_paths"
    using h(1-7) by (simp add: run_required_paths_def and_then_def)
  have "\<not> rejected_items run_input_keys ins"
    using h(9) parse_run_inputs_keys [OF h(10)]
    by (rule iterated_items_accepted) (simp add: run_input_keys_def)
  then have b: "\<not> (case py_getitem doc ''inputs'' of
            Inr v \<Rightarrow> rejected_items run_input_keys v | Inl e \<Rightarrow> False)"
    using h(8) by simp
  have "\<not> rejected_items run_parameter_keys ps"
    using h(12) parse_run_parameters_keys [OF h(13)]
    by (rule iterated_items_accepted) (simp add: run_parameter_keys_def)
  then have c: "\<not> (case py_getitem doc ''parameters'' of
            Inr v \<Rightarrow> rejected_items run_parameter_keys v | Inl e \<Rightarrow> False)"
    using h(11) by simp
  show ?thesis using a b c by (simp add: malformed_run_document_def)
qed

text \<open>
  C2, as the code has it. When a stored document lacks one of \<^verbatim>\<open>uuid\<close>,
  \<^verbatim>\<open>process.name\<close>, \<^verbatim>\<open>process.url\<close>, \<^verbatim>\<open>processed_dataset.uuid\<close>,
  \<^verbatim>\<open>processed_dataset.url\<close>, or its \<^verbatim>\<open>inputs\<close> or \<^verbatim>\<open>parameters\<close> is present but
  is not a list of objects with the required keys (the empty string and the empty object
  apart), \<^verbatim>\<open>_parse_run\<close> returns no run: it raises the Python runtime's
  \<^verbatim>\<open>KeyError\<close> or \<^verbatim>\<open>TypeError\<close>. The examples are the document \<^verbatim>\<open>{"uuid": "x"}\<close>
  and a document with every required key whose \<^verbatim>\<open>inputs\<close> is the number 7.
\<close>

theorem malformed_run_document_raises:
  assumes "fs path = Some (JsonText doc)" and "malformed_run_document doc"
  shows "\<exists>e. parse_run path fs = Inl e \<and> runtime_error e"
proof -
  have p: "parse_run path fs = parse_run_metadata path doc"
    using assms(1) by (simp add: parse_run_def read_json_def and_then_def)
  show ?thesis
  proof (cases "parse_run_metadata path doc")
    case (Inl e)
    then show ?thesis using p parse_run_metadata_error by auto
  next
    case (Inr run)
    then show ?thesis using assms(2) parse_run_metadata_well_formed by blast
  qed
qed

theorem malformed_run_document_raises_witness:
  "malformed_run_document (JObj [(''uuid'', JStr ''x'')])
   \<and> (\<exists>e. parse_run ''run.md.json'' [''run.md.json'' \<mapsto> JsonText (JObj [(''uuid'', JStr ''x'')])] = Inl e
        \<and> runtime_error e)
   \<and> malformed_run_document example_numeric_inputs_document
   \<and> (\<exists>e. parse_run ''run.md.json'' [''run.md.json'' \<mapsto> JsonText example_numeric_inputs_document]
              = Inl e
        \<and> runtime_error e)"
proof -
  have m1: "malformed_run_document (JObj [(''uuid'', JStr ''x'')])"
    by (simp add: malformed_run_document_def run_required_paths_def and_then_def)
  have m2: "malformed_run_document example_numeric_inputs_document"
    by (simp add: malformed_run_document_def example_numeric_inputs_document_def
        rejected_items_def)
  have f1: "[''run.md.json'' \<mapsto> JsonText (JObj [(''uuid'', JStr ''x'')])] ''run.md.json''
              = Some (JsonText (JObj [(''uuid'', JStr ''x'')]))"
    by simp
  have f2: "[''run.md.json'' \<mapsto> JsonText example_numeric_inputs_document] ''run.md.json''
              = Some (JsonText example_numeric_inputs_document)"
    by simp
  show ?thesis
    using m1 m2
      malformed_run_document_raises
        [of "[''run.md.json'' \<mapsto> JsonText (JObj [(''uuid'', JStr ''x'')])]" "''run.md.json''"
            "JObj [(''uuid'', JStr ''x'')]", OF f1 m1]
      malformed_run_document_raises
        [of "[''run.md.json'' \<mapsto> JsonText example_numeric_inputs_document]" "''run.md.json''"
            example_numeric_inputs_document, OF f2 m2]
    by blast
qed

text \<open>
  C2 as stated fails twice. Decoding \<^verbatim>\<open>{"uuid": "x"}\<close> raises \<^verbatim>\<open>KeyError('process')\<close>,
  which is not a \<^verbatim>\<open>MalformedDocumentError\<close>; and a document whose \<^verbatim>\<open>inputs\<close> is the
  empty string and whose \<^verbatim>\<open>parameters\<close> is an empty object, neither of them a list,
  is decoded without any error into a run with no inputs and no parameters.
\<close>

theorem malformed_run_document_counterexample:
  "parse_run ''run.md.json'' [''run.md.json'' \<mapsto> JsonText (JObj [(''uuid'', JStr ''x'')])]
     = Inl (KeyError ''process'')
   \<and> parse_run ''run.md.json''
       [''run.md.json'' \<mapsto> JsonText (JObj
          [(''uuid'', JStr ''x''),
           (''process'', JObj [(''name'', JStr ''p''), (''url'', JStr ''u'')]),
           (''processed_dataset'', JObj [(''uuid'', JStr ''d''), (''url'', JStr ''d'')]),
           (''inputs'', JStr ''''),
           (''parameters'', JObj [])])]
     = Inr \<lparr>r_uuid = JStr ''x'', r_md_uri = JStr ''run.md.json'',
            r_process_name = JStr ''p'', r_process_uri = JStr ''u'',
            r_processed_dataset = \<lparr>c_md_uri = JStr ''d'', c_uuid = JStr ''d''\<rparr>,
            r_inputs = [], r_parameters = []\<rparr>"
  by (simp add: parse_run_def read_json_def parse_run_metadata_def and_then_def)

text \<open>
  The condition is exact: a document that has \<^verbatim>\<open>inputs\<close> and \<^verbatim>\<open>parameters\<close> and is
  not malformed is decoded into a run.
\<close>

lemma not_isl_Inr: "\<not> isl m \<Longrightarrow> \<exists>x. m = Inr x"
  by (cases m) simp_all

lemma parse_run_inputs_accepts:
  "\<not> lacks_key run_input_keys xs \<Longrightarrow> \<exists>ys. parse_run_inputs xs acc = Inr ys"
proof (induction xs arbitrary: acc)
  case Nil
  show ?case by simp
next
  case (Cons x xs)
  then have k: "\<not> isl (py_getitem x ''name'')" "\<not> isl (py_getitem x ''dataset'')"
      "\<not> isl (py_getitem x ''query'')" "\<not> isl (py_getitem x ''origin_output_name'')"
    and rest: "\<not> lacks_key run_input_keys xs"
    by (simp_all add: lacks_key_def run_input_keys_def)
  from k obtain n d q oon where "py_getitem x ''name'' = Inr n" "py_getitem x ''dataset'' = Inr d"
      "py_getitem x ''query'' = Inr q" "py_getitem x ''origin_output_name'' = Inr oon"
    by (meson not_isl_Inr)
  then have "\<exists>i. parse_run_input x = Inr i"
    by (simp add: parse_run_input_def and_then_def)
  then show ?case using Cons.IH [OF rest] by (auto simp: and_then_def)
qed

lemma parse_run_parameters_accepts:
  "\<not> lacks_key run_parameter_keys xs \<Longrightarrow> \<exists>ys. parse_run_parameters xs acc = Inr ys"
proof (induction xs arbitrary: acc)
  case Nil
  show ?case by simp
next
  case (Cons x xs)
  then have k: "\<not> isl (py_getitem x ''name'')" "\<not> isl (py_getitem x ''value'')"
    and rest: "\<not> lacks_key run_parameter_keys xs"
    by (simp_all add: lacks_key_def run_parameter_keys_def)
  from k obtain n v where "py_getitem x ''name'' = Inr n" "py_getitem x ''value'' = Inr v"
    by (meson not_isl_Inr)
  then have "\<exists>i. parse_run_parameter x = Inr i"
    by (simp add: parse_run_parameter_def and_then_def)
  then show ?case using Cons.IH [OF rest] by (auto simp: and_then_def)
qed

lemma accepted_items_iterate:
  "\<not> rejected_items keys v \<Longrightarrow> \<exists>items. py_iter v = Inr items \<and> \<not> lacks_key keys items"
  by (cases v) (auto simp: rejected_items_def lacks_key_def)

lemma get_path_2:
  "\<not> isl (get_path doc [a, b]) \<Longrightarrow> \<exists>x y. py_getitem doc a = Inr x \<and> py_getitem x b = Inr y"
  by (cases "py_getitem doc a"; cases "py_getitem (projr (py_getitem doc a)) b")
     (auto simp: and_then_def)

lemma well_formed_run_document_decodes:
  assumes wf: "\<not> malformed_run_document doc"
    and ins: "py_getitem doc ''inputs'' = Inr ins" and ps: "py_getitem doc ''parameters'' = Inr ps"
  shows "\<exists>run. parse_run_metadata path doc = Inr run"
proof -
  from wf have paths: "\<not> isl (get_path doc [''uuid''])"
      "\<not> isl (get_path doc [''process'', ''name''])" "\<not> isl (get_path doc [''process'', ''url''])"
      "\<not> isl (get_path doc [''processed_dataset'', ''uuid''])"
      "\<not> isl (get_path doc [''processed_dataset'', ''url''])"
    and ri: "\<not> rejected_items run_input_keys ins" and rp: "\<not> rejected_items run_parameter_keys ps"
    using ins ps by (simp_all add: malformed_run_document_def run_required_paths_def)
  obtain uuid where u: "py_getitem doc ''uuid'' = Inr uuid"
    using paths(1) by (cases "py_getitem doc ''uuid''") (auto simp: and_then_def)
  obtain p1 pn where p: "py_getitem doc ''process'' = Inr p1" "py_getitem p1 ''name'' = Inr pn"
    using get_path_2 [OF paths(2)] by blast
  obtain pu where pu: "py_getitem p1 ''url'' = Inr pu"
    using get_path_2 [OF paths(3)] p(1) by auto
  obtain d1 dd where d: "py_getitem doc ''processed_dataset'' = Inr d1" "py_getitem d1 ''uuid'' = Inr dd"
    using get_path_2 [OF paths(4)] by blast
  obtain du where du: "py_getitem d1 ''url'' = Inr du"
    using get_path_2 [OF paths(5)] d(1) by auto
  obtain in_items where i: "py_iter ins = Inr in_items" "\<not> lacks_key run_input_keys in_items"
    using accepted_items_iterate [OF ri] by blast
  obtain inputs where i2: "parse_run_inputs in_items [] = Inr inputs"
    using parse_run_inputs_accepts [OF i(2)] by blast
  obtain p_items where q: "py_iter ps = Inr p_items" "\<not> lacks_key run_parameter_keys p_items"
    using accepted_items_iterate [OF rp] by blast
  obtain parameters where q2: "parse_run_parameters p_items [] = Inr parameters"
    using parse_run_parameters_accepts [OF q(2)] by blast
  show ?thesis
    by (simp add: parse_run_metadata_def and_then_def u p pu d du ins ps i(1) i2 q(1) q2)
qed

section \<open>Properties of \<^verbatim>\<open>create_run\<close>\<close>

text \<open>
  The sequence of names of the specification: \<^verbatim>\<open>run.md.json\<close>, \<^verbatim>\<open>run_1.md.json\<close>,
  \<^verbatim>\<open>run_2.md.json\<close>, and so on.
\<close>

definition run_md_sequence :: "nat \<Rightarrow> string" where
  "run_md_sequence k = (if k = 0 then ''run.md.json'' else ''run_'' @ str_nat k @ ''.md.json'')"

lemma run_name_loop_first_free:
  "run_md_file_name = run_md_sequence c \<Longrightarrow> \<forall>j<c. run_md_sequence j \<in> set ann_files \<Longrightarrow>
   \<exists>k. run_name_loop ann_files run_md_file_name c = run_md_sequence k
       \<and> run_md_sequence k \<notin> set ann_files
       \<and> (\<forall>j<k. run_md_sequence j \<in> set ann_files)"
proof (induction ann_files run_md_file_name c rule: run_name_loop.induct)
  case (1 ann_files run_md_file_name run_id_count)
  show ?case
  proof (cases "run_md_file_name \<in> set ann_files")
    case True
    have next_name: "run_name (run_id_count + 1) = run_md_sequence (run_id_count + 1)"
      by (simp add: run_name_def run_md_sequence_def)
    have below: "\<forall>j<run_id_count + 1. run_md_sequence j \<in> set ann_files"
      using True "1.prems" by (auto simp: less_Suc_eq)
    from "1.IH" [OF True next_name below] show ?thesis
      using True by (subst run_name_loop.simps) simp
  next
    case False
    then show ?thesis
      using "1.prems" by (subst run_name_loop.simps) auto
  qed
qed

lemma run_name_loop_allocates:
  "\<exists>k. run_name_loop ann_files ''run.md.json'' 0 = run_md_sequence k
       \<and> run_md_sequence k \<notin> set ann_files
       \<and> (\<forall>j<k. run_md_sequence j \<in> set ann_files)"
  by (rule run_name_loop_first_free) (simp_all add: run_md_sequence_def)

lemma digit_char_not_slash: "d < 10 \<Longrightarrow> digit_char d \<noteq> CHR ''/''"
proof
  assume d: "d < 10" and "digit_char d = CHR ''/''"
  then have "of_char (digit_char d) = (of_char (CHR ''/'') :: nat)" by simp
  then show False using d by (simp add: digit_char_def)
qed

lemma str_nat_no_slash: "CHR ''/'' \<notin> set (str_nat n)"
proof (induction n rule: str_nat.induct)
  case (1 n)
  show ?case
  proof (cases "n < 10")
    case True
    then show ?thesis using digit_char_not_slash [of n] by (subst str_nat.simps) auto
  next
    case False
    then show ?thesis
      using "1.IH" digit_char_not_slash [of "n mod 10"] by (subst str_nat.simps) auto
  qed
qed

lemma run_md_sequence_no_slash: "CHR ''/'' \<notin> set (run_md_sequence k)"
  by (simp add: run_md_sequence_def str_nat_no_slash)

lemma basename_join:
  assumes "CHR ''/'' \<notin> set b"
  shows "os_path_basename (os_path_join a b) = b"
proof -
  have tw: "takeWhile (\<lambda>c. c \<noteq> CHR ''/'') (rev b @ CHR ''/'' # xs) = rev b" for xs
    using assms by (auto simp: takeWhile_append2 takeWhile_tail)
  have whole: "takeWhile (\<lambda>c. c \<noteq> CHR ''/'') (rev b) = rev b"
    using assms by (auto simp: takeWhile_eq_all_conv)
  have plain: "os_path_basename b = b"
    by (simp only: os_path_basename_def whole rev_rev_ident)
  have sep: "os_path_basename (a' @ ''/'' @ b) = b" for a'
    using tw [of "rev a'"] by (simp add: os_path_basename_def)
  have nohd: "\<not> (b \<noteq> [] \<and> hd b = CHR ''/'')"
    using assms by (cases b) auto
  show ?thesis
  proof (cases "a = []")
    case True
    then show ?thesis using nohd plain by (auto simp: os_path_join_def)
  next
    case False
    show ?thesis
    proof (cases "last a = CHR ''/''")
      case True
      then have "a = butlast a @ ''/''" using False by (metis append_butlast_last_id)
      then have "a @ b = butlast a @ ''/'' @ b" by (metis append.assoc)
      then have "os_path_basename (a @ b) = b" using sep [of "butlast a"] by (simp only:)
      moreover have "os_path_join a b = a @ b" using nohd True by (auto simp: os_path_join_def)
      ultimately show ?thesis by (simp only:)
    next
      case F2: False
      then show ?thesis using nohd False sep [of a] by (auto simp: os_path_join_def)
    qed
  qed
qed

lemma link_annotation_Some:
  "table i = Some obj \<Longrightarrow>
   link_annotation ann i table i = Some (obj\<lparr>o_annotations := o_annotations obj @ [ann]\<rparr>)"
  by (simp add: link_annotation_def)

lemma get_object_Some:
  "get_object table oid = Some (i, obj) \<Longrightarrow> table i = Some obj"
  by (auto simp: get_object_def split: option.splits)

lemma create_run_prepare_result:
  assumes "get_object (datasets (srv w)) (c_md_uri dataset) = Some (i, obj)"
    and "path = os_path_join workspace (run_name_loop (file_names (o_annotations obj)) ''run.md.json'' 0)"
    and "run1 = run_info\<lparr>r_processed_dataset := Container.truncate dataset,
                             r_uuid := JStr '''', r_md_uri := JStr path\<rparr>"
  shows "create_run_prepare workspace dataset run_info w
           = (Inr (i, path, run1), w\<lparr>files := (files w)(path \<mapsto> JsonText (run_metadata run1))\<rparr>)"
  using assms
  by (simp add: create_run_prepare_def Let_def write_run_def write_json_def)

lemma create_run_attach_result:
  assumes "files w path = Some content" and "datasets (srv w) i = Some obj"
  shows "create_run_attach i path run1 w
           = (Inr (run1\<lparr>r_uuid := JInt (int (next_id (srv w))), r_md_uri := JInt (int (next_id (srv w)))\<rparr>),
              \<lparr>srv = (srv w)\<lparr>next_id := next_id (srv w) + 1,
                     datasets := (datasets (srv w))(i \<mapsto> obj\<lparr>o_annotations := o_annotations obj
                        @ [FileAnnotation (next_id (srv w)) (os_path_basename path) content]\<rparr>)\<rparr>,
               files = (files w)(path := None)\<rparr>)"
  using assms
  by (simp add: create_run_attach_def create_file_ann_from_local_file_def Let_def link_annotation_def)

lemma example_allocation:
  "run_name_loop [''run.md.json'', ''run_1.md.json''] ''run.md.json'' 0 = ''run_2.md.json''"
  by code_simp

text \<open>
  C3. When \<^verbatim>\<open>create_run\<close> is called on an existing dataset, it succeeds and attaches a
  file annotation whose name is the first name of the sequence \<^verbatim>\<open>run.md.json\<close>,
  \<^verbatim>\<open>run_1.md.json\<close>, \<^verbatim>\<open>run_2.md.json\<close>, ... that is not the name of a file annotation
  the dataset already holds: the name at some index \<open>k\<close> is free and the names at all
  smaller indices are taken. The name is a function of the names held, with no hash and
  nothing random in it; for the names \<^verbatim>\<open>run.md.json\<close> and \<^verbatim>\<open>run_1.md.json\<close> it
  is \<^verbatim>\<open>run_2.md.json\<close>.
\<close>

theorem create_run_allocates_first_free_name:
  assumes "get_object (datasets (srv w)) (c_md_uri dataset) = Some (i, obj)"
  shows "(\<exists>k run2 w2 content.
           create_run workspace dataset run_info w = (Inr run2, w2)
         \<and> datasets (srv w2) i
             = Some (obj\<lparr>o_annotations := o_annotations obj
                  @ [FileAnnotation (next_id (srv w)) (run_md_sequence k) content]\<rparr>)
         \<and> run_md_sequence k \<notin> set (file_names (o_annotations obj))
         \<and> (\<forall>j<k. run_md_sequence j \<in> set (file_names (o_annotations obj))))
       \<and> run_name_loop [''run.md.json'', ''run_1.md.json''] ''run.md.json'' 0 = ''run_2.md.json''"
proof -
  define name where "name = run_name_loop (file_names (o_annotations obj)) ''run.md.json'' 0"
  define path where "path = os_path_join workspace name"
  define run1 where "run1 = run_info\<lparr>r_processed_dataset := Container.truncate dataset,
                                       r_uuid := JStr '''', r_md_uri := JStr path\<rparr>"
  define w1 where "w1 = w\<lparr>files := (files w)(path \<mapsto> JsonText (run_metadata run1))\<rparr>"
  obtain k where k: "name = run_md_sequence k"
      "run_md_sequence k \<notin> set (file_names (o_annotations obj))"
      "\<forall>j<k. run_md_sequence j \<in> set (file_names (o_annotations obj))"
    using run_name_loop_allocates [of "file_names (o_annotations obj)"] unfolding name_def by blast
  have base: "os_path_basename path = run_md_sequence k"
    unfolding path_def k(1) by (rule basename_join) (rule run_md_sequence_no_slash)
  have prep: "create_run_prepare workspace dataset run_info w = (Inr (i, path, run1), w1)"
    unfolding w1_def
    by (rule create_run_prepare_result [OF assms]) (simp_all add: path_def name_def run1_def)
  have obj: "datasets (srv w1) i = Some obj"
    using get_object_Some [OF assms] by (simp add: w1_def)
  have att: "create_run_attach i path run1 w1
           = (Inr (run1\<lparr>r_uuid := JInt (int (next_id (srv w1))), r_md_uri := JInt (int (next_id (srv w1)))\<rparr>),
              \<lparr>srv = (srv w1)\<lparr>next_id := next_id (srv w1) + 1,
                     datasets := (datasets (srv w1))(i \<mapsto> obj\<lparr>o_annotations := o_annotations obj
                        @ [FileAnnotation (next_id (srv w1)) (os_path_basename path) (JsonText (run_metadata run1))]\<rparr>)\<rparr>,
               files = (files w1)(path := None)\<rparr>)"
    by (rule create_run_attach_result [OF _ obj]) (simp add: w1_def)
  define run2 where "run2 = run1\<lparr>r_uuid := JInt (int (next_id (srv w1))),
                                   r_md_uri := JInt (int (next_id (srv w1)))\<rparr>"
  define w2 where "w2 = \<lparr>srv = (srv w1)\<lparr>next_id := next_id (srv w1) + 1,
                     datasets := (datasets (srv w1))(i \<mapsto> obj\<lparr>o_annotations := o_annotations obj
                        @ [FileAnnotation (next_id (srv w1)) (os_path_basename path) (JsonText (run_metadata run1))]\<rparr>)\<rparr>,
               files = (files w1)(path := None)\<rparr>"
  have created: "create_run workspace dataset run_info w = (Inr run2, w2)"
    by (simp add: create_run_def prep att run2_def w2_def)
  have linked: "datasets (srv w2) i
             = Some (obj\<lparr>o_annotations := o_annotations obj
                  @ [FileAnnotation (next_id (srv w)) (run_md_sequence k) (JsonText (run_metadata run1))]\<rparr>)"
    by (simp add: w2_def w1_def base)
  show ?thesis
    using created linked k(2,3) example_allocation by blast
qed

lemma example_get_object:
  "get_object (datasets (srv example_world)) (c_md_uri example_dataset) = Some (12, example_dataset_object)"
  by (simp add: example_world_def example_dataset_def get_object_def object_id_def)

lemma example_file_names:
  "file_names (o_annotations example_dataset_object) = [''run.md.json'', ''run_1.md.json'']"
  by (simp add: example_dataset_object_def)

theorem create_run_allocates_first_free_name_witness:
  "get_object (datasets (srv example_world)) (c_md_uri example_dataset) = Some (12, example_dataset_object)
   \<and> (\<exists>k run2 w2 content.
           create_run ''/workspace'' example_dataset example_run example_world = (Inr run2, w2)
         \<and> datasets (srv w2) 12
             = Some (example_dataset_object\<lparr>o_annotations := o_annotations example_dataset_object
                  @ [FileAnnotation (next_id (srv example_world)) (run_md_sequence k) content]\<rparr>)
         \<and> run_md_sequence k \<notin> set (file_names (o_annotations example_dataset_object))
         \<and> (\<forall>j<k. run_md_sequence j \<in> set (file_names (o_annotations example_dataset_object))))
   \<and> run_name_loop (file_names (o_annotations example_dataset_object)) ''run.md.json'' 0
        = ''run_2.md.json''"
  using create_run_allocates_first_free_name [OF example_get_object, of "''/workspace''" example_run]
    example_get_object example_allocation example_file_names
  by simp

text \<open>
  C7. In every execution of \<^verbatim>\<open>create_run\<close> on an existing dataset, the run has the
  empty string for its \<^verbatim>\<open>uuid\<close> when its document is written, before anything is
  attached: the server is still unchanged then, and the document is in the workspace.
  The execution then succeeds, and the run it returns has for \<^verbatim>\<open>uuid\<close> and for
  \<^verbatim>\<open>md_uri\<close> the id of the file annotation that was created from the document and linked
  to the dataset.
\<close>

theorem create_run_identity_after_attach:
  assumes "get_object (datasets (srv w)) (c_md_uri dataset) = Some (i, obj)"
  shows "\<exists>path run1 w1 run2 w2 name.
           create_run_prepare workspace dataset run_info w = (Inr (i, path, run1), w1)
         \<and> r_uuid run1 = JStr ''''
         \<and> files w1 path = Some (JsonText (run_metadata run1))
         \<and> srv w1 = srv w
         \<and> create_run workspace dataset run_info w = (Inr run2, w2)
         \<and> r_uuid run2 = JInt (int (next_id (srv w)))
         \<and> r_md_uri run2 = JInt (int (next_id (srv w)))
         \<and> datasets (srv w2) i
             = Some (obj\<lparr>o_annotations := o_annotations obj
                  @ [FileAnnotation (next_id (srv w)) name (JsonText (run_metadata run1))]\<rparr>)"
proof -
  define path where
    "path = os_path_join workspace (run_name_loop (file_names (o_annotations obj)) ''run.md.json'' 0)"
  define run1 where "run1 = run_info\<lparr>r_processed_dataset := Container.truncate dataset,
                                       r_uuid := JStr '''', r_md_uri := JStr path\<rparr>"
  define w1 where "w1 = w\<lparr>files := (files w)(path \<mapsto> JsonText (run_metadata run1))\<rparr>"
  have prep: "create_run_prepare workspace dataset run_info w = (Inr (i, path, run1), w1)"
    unfolding w1_def
    by (rule create_run_prepare_result [OF assms]) (simp_all add: path_def run1_def)
  have obj: "datasets (srv w1) i = Some obj"
    using get_object_Some [OF assms] by (simp add: w1_def)
  have att: "create_run_attach i path run1 w1
           = (Inr (run1\<lparr>r_uuid := JInt (int (next_id (srv w1))), r_md_uri := JInt (int (next_id (srv w1)))\<rparr>),
              \<lparr>srv = (srv w1)\<lparr>next_id := next_id (srv w1) + 1,
                     datasets := (datasets (srv w1))(i \<mapsto> obj\<lparr>o_annotations := o_annotations obj
                        @ [FileAnnotation (next_id (srv w1)) (os_path_basename path) (JsonText (run_metadata run1))]\<rparr>)\<rparr>,
               files = (files w1)(path := None)\<rparr>)"
    by (rule create_run_attach_result [OF _ obj]) (simp add: w1_def)
  define run2 where "run2 = run1\<lparr>r_uuid := JInt (int (next_id (srv w1))),
                                   r_md_uri := JInt (int (next_id (srv w1)))\<rparr>"
  define w2 where "w2 = \<lparr>srv = (srv w1)\<lparr>next_id := next_id (srv w1) + 1,
                     datasets := (datasets (srv w1))(i \<mapsto> obj\<lparr>o_annotations := o_annotations obj
                        @ [FileAnnotation (next_id (srv w1)) (os_path_basename path) (JsonText (run_metadata run1))]\<rparr>)\<rparr>,
               files = (files w1)(path := None)\<rparr>"
  have created: "create_run workspace dataset run_info w = (Inr run2, w2)"
    by (simp add: create_run_def prep att run2_def w2_def)
  have before: "r_uuid run1 = JStr ''''" "files w1 path = Some (JsonText (run_metadata run1))"
      "srv w1 = srv w"
    by (simp_all add: run1_def w1_def)
  have after: "r_uuid run2 = JInt (int (next_id (srv w)))" "r_md_uri run2 = JInt (int (next_id (srv w)))"
    by (simp_all add: run2_def w1_def)
  have linked: "datasets (srv w2) i
             = Some (obj\<lparr>o_annotations := o_annotations obj
                  @ [FileAnnotation (next_id (srv w)) (os_path_basename path) (JsonText (run_metadata run1))]\<rparr>)"
    by (simp add: w2_def w1_def)
  show ?thesis
    using prep before created after linked by blast
qed

theorem create_run_identity_after_attach_witness:
  "get_object (datasets (srv example_world)) (c_md_uri example_dataset) = Some (12, example_dataset_object)
   \<and> (\<exists>path run1 w1 run2 w2 name.
           create_run_prepare ''/workspace'' example_dataset example_run example_world
             = (Inr (12, path, run1), w1)
         \<and> r_uuid run1 = JStr ''''
         \<and> files w1 path = Some (JsonText (run_metadata run1))
         \<and> srv w1 = srv example_world
         \<and> create_run ''/workspace'' example_dataset example_run example_world = (Inr run2, w2)
         \<and> r_uuid run2 = JInt (int (next_id (srv example_world)))
         \<and> r_md_uri run2 = JInt (int (next_id (srv example_world)))
         \<and> datasets (srv w2) 12
             = Some (example_dataset_object\<lparr>o_annotations := o_annotations example_dataset_object
                  @ [FileAnnotation (next_id (srv example_world)) name (JsonText (run_metadata run1))]\<rparr>))
   \<and> next_id (srv example_world) = 20"
  using create_run_identity_after_attach [OF example_get_object, of "''/workspace''" example_run]
    example_get_object
  by (simp add: example_world_def)

section \<open>Properties of \<^verbatim>\<open>get_raw_data\<close>\<close>

lemma map_of_fold_update:
  "map_of (fold (\<lambda>value kvp. AList.update (fst value) (snd value) kvp) vals kvp)
     = map_of kvp ++ map_of (rev vals)"
proof (induction vals arbitrary: kvp)
  case Nil
  show ?case by simp
next
  case (Cons pr vals)
  have "map_of (fold (\<lambda>value kvp. AList.update (fst value) (snd value) kvp) (pr # vals) kvp)
          = map_of (AList.update (fst pr) (snd pr) kvp) ++ map_of (rev vals)"
    using Cons.IH by simp
  also have "\<dots> = (map_of kvp ++ [fst pr \<mapsto> snd pr]) ++ map_of (rev vals)"
    by (simp add: update_conv')
  also have "\<dots> = map_of kvp ++ map_of (rev (pr # vals))"
    by (cases pr) (simp add: map_add_assoc [symmetric])
  finally show ?case .
qed

lemma map_of_read_key_value_pairs:
  "map_of (read_key_value_pairs anns kvp) = map_of kvp ++ map_of (rev (item_level_pairs anns))"
proof (induction anns kvp rule: read_key_value_pairs.induct)
  case (2 i vals anns kvp)
  then show ?case by (simp add: map_of_fold_update)
qed simp_all

lemma map_of_read_experiment_tags:
  "map_of (read_experiment_tags anns kvp) k
     = (case map_of kvp k of Some v \<Rightarrow> Some v
        | None \<Rightarrow> if k \<in> set (tag_values anns) then Some '''' else None)"
proof (induction anns kvp rule: read_experiment_tags.induct)
  case (2 i v anns kvp)
  then show ?case by (auto simp: update_conv' split: option.splits)
qed (simp_all split: option.splits)

text \<open>
  C4. When the image, its dataset and the project of the dataset exist, \<^verbatim>\<open>get_raw_data\<close>
  returns a container whose key-value map is the merge of the item-level pairs of the
  image and the tags of the project: a key with an item-level pair has its (last)
  item-level value, whether or not it is a tag as well, and a tag gives the empty string
  only for a key with no item-level pair. In the example, the image carries
  \<^verbatim>\<open>stain\<close> \<open>\<mapsto>\<close> \<^verbatim>\<open>DAPI\<close> under a project tagged \<^verbatim>\<open>stain\<close> and \<^verbatim>\<open>time\<close>: the result
  has \<^verbatim>\<open>stain\<close> \<open>\<mapsto>\<close> \<^verbatim>\<open>DAPI\<close> and \<^verbatim>\<open>time\<close> \<open>\<mapsto>\<close> the empty string.
\<close>

theorem raw_data_key_value_merge:
  assumes "get_object (images s) md_uri = Some (i, img)"
    and "o_parent img = Some d" and "datasets s d = Some dataset"
    and "o_parent dataset = Some p" and "projects s p = Some project"
  shows "\<exists>container. get_raw_data format_date md_uri s = Inr container
           \<and> (\<forall>k. map_of (rd_key_value_pairs container) k
                  = merged_key_value (item_level_pairs (o_annotations img))
                      (tag_values (o_annotations project)) k)"
  using assms
  by (simp add: get_raw_data_def Let_def map_of_read_experiment_tags map_of_read_key_value_pairs
      merged_key_value_def)

lemma example_raw_image_found:
  "get_object (images (srv example_world)) (JInt 30) = Some (30, example_raw_image)"
  by (simp add: example_world_def get_object_def object_id_def)

theorem raw_data_key_value_merge_witness:
  "get_object (images (srv example_world)) (JInt 30) = Some (30, example_raw_image)
   \<and> o_parent example_raw_image = Some 12
   \<and> datasets (srv example_world) 12 = Some example_dataset_object
   \<and> o_parent example_dataset_object = Some 1
   \<and> projects (srv example_world) 1 = Some example_project_object
   \<and> (\<exists>container. get_raw_data example_format_date (JInt 30) (srv example_world) = Inr container
           \<and> (\<forall>k. map_of (rd_key_value_pairs container) k
                  = merged_key_value (item_level_pairs (o_annotations example_raw_image))
                      (tag_values (o_annotations example_project_object)) k))
   \<and> merged_key_value (item_level_pairs (o_annotations example_raw_image))
        (tag_values (o_annotations example_project_object)) ''stain'' = Some ''DAPI''
   \<and> merged_key_value (item_level_pairs (o_annotations example_raw_image))
        (tag_values (o_annotations example_project_object)) ''time'' = Some ''''"
proof -
  have h: "o_parent example_raw_image = Some 12"
      "datasets (srv example_world) 12 = Some example_dataset_object"
      "o_parent example_dataset_object = Some 1"
      "projects (srv example_world) 1 = Some example_project_object"
    by (simp_all add: example_raw_image_def example_world_def example_dataset_object_def)
  have m: "merged_key_value (item_level_pairs (o_annotations example_raw_image))
        (tag_values (o_annotations example_project_object)) ''stain'' = Some ''DAPI''"
     "merged_key_value (item_level_pairs (o_annotations example_raw_image))
        (tag_values (o_annotations example_project_object)) ''time'' = Some ''''"
    by (simp_all add: merged_key_value_def example_raw_image_def example_project_object_def)
  show ?thesis
    using raw_data_key_value_merge [OF example_raw_image_found h, of example_format_date]
      example_raw_image_found h m
    by blast
qed

section \<open>Properties of \<^verbatim>\<open>import_data\<close>\<close>

text \<open>
  C5, as the code has it. With a format other than \<^verbatim>\<open>imagetiff\<close>, \<^verbatim>\<open>import_data\<close>
  raises and changes nothing on the server. When the experiment has a raw dataset, the
  exception is a \<^verbatim>\<open>DataServiceError\<close> with the message naming the format, and the
  single call made before it is the lookup of the raw dataset; without a raw dataset
  the attribute access raises before any call.
\<close>

theorem import_data_rejects_other_formats:
  assumes "fmt \<noteq> ''imagetiff''"
  shows "import_data main_import experiment data_path name author fmt date key_value_pairs s
           = (case e_raw_dataset experiment of
                None \<Rightarrow> (Inl AttributeError, s, [])
              | Some raw_dataset \<Rightarrow>
                  (Inl (DataServiceError (unsupported_format_message fmt)), s,
                   [GetObject ''Dataset'' (di_url raw_dataset)]))"
  using assms by (simp add: import_data_def Let_def split: option.splits)

theorem import_data_rejects_other_formats_witness:
  "''czi'' \<noteq> ''imagetiff''
   \<and> import_data example_main_import example_experiment ''/data/a.czi'' (JStr ''a'') (JStr ''root'')
       ''czi'' (JStr ''now'') [] (srv example_world)
     = (Inl (DataServiceError (unsupported_format_message ''czi'')), srv example_world,
        [GetObject ''Dataset'' (JInt 12)])"
  using import_data_rejects_other_formats
    [of "''czi''" example_main_import example_experiment "''/data/a.czi''" "JStr ''a''" "JStr ''root''"
        "JStr ''now''" "[]" "srv example_world"]
  by (simp add: example_experiment_def)

text \<open>
  C5 as stated fails: with the format \<^verbatim>\<open>czi\<close> the exception is a \<^verbatim>\<open>DataServiceError\<close>,
  not an \<^verbatim>\<open>UnsupportedFormatError\<close>, and the server has been asked for the raw
  dataset before the format is rejected.
\<close>

theorem import_data_lookup_counterexample:
  "fst (import_data example_main_import example_experiment ''/data/a.czi'' (JStr ''a'') (JStr ''root'')
         ''czi'' (JStr ''now'') [] (srv example_world))
     = Inl (DataServiceError ''OMERO service can only import tiff images (format=czi)'')
   \<and> snd (snd (import_data example_main_import example_experiment ''/data/a.czi'' (JStr ''a'')
         (JStr ''root'') ''czi'' (JStr ''now'') [] (srv example_world)))
     = [GetObject ''Dataset'' (JInt 12)]"
  by (simp add: import_data_def example_experiment_def Let_def unsupported_format_message_def)

section \<open>Properties of the origin document\<close>

lemma example_processed_image_found:
  "get_object (images (srv example_world)) (JInt 31) = Some (31, example_processed_image)"
  by (simp add: example_world_def get_object_def object_id_def)

lemma example_workspace_file:
  "os_path_join ''/workspace'' ''processed_data.md.json'' = ''/workspace/processed_data.md.json''"
  by (simp add: os_path_join_def)

lemma example_download:
  "omero_download_image_md_attachments example_processed_image ''/workspace'' Map.empty
     = (Inr (), [''/workspace/processed_data.md.json'' \<mapsto> JsonText example_origin_document])"
  by (simp add: omero_download_image_md_attachments_def example_processed_image_def endswith_def
      example_workspace_file)

lemma example_get_processed_data:
  "fst (get_processed_data ''/workspace'' example_format_date (JInt 31) example_world)
     = Inr (Some example_processed_data)"
proof -
  have f: "files example_world = Map.empty" by (simp add: example_world_def)
  have p: "and_then (read_json ''/workspace/processed_data.md.json''
             [''/workspace/processed_data.md.json'' \<mapsto> JsonText example_origin_document])
            (parse_processed_data (new_ProcessedData
                 \<lparr>pd_uuid := JInt 31, pd_md_uri := JInt 31, pd_name := JStr ''cells_denoised.tif'',
                  pd_author := JStr ''root'', pd_date := JStr ''1970-01-01'',
                  pd_format := JStr ''imagetiff'', pd_uri := JInt 31\<rparr>))
          = Inr example_processed_data"
    by (simp add: read_json_def and_then_def parse_processed_data_def example_origin_document_def
        parse_origin_input_def read_origin_output_key_def new_ProcessedData_def
        example_processed_data_def)
  have n: "o_name example_processed_image = JStr ''cells_denoised.tif''"
      "o_owner example_processed_image = JStr ''root''"
    by (simp_all add: example_processed_image_def)
  show ?thesis
    by (simp add: get_processed_data_def example_processed_image_found Let_def f
        example_workspace_file example_download p example_format_date_def n)
qed

lemma origin_output_key_absent:
  assumes "py_getitem metadata ''origin'' = Inr origin"
    and "py_getitem origin ''output'' = Inr (JObj kvs)" and "map_of kvs key = None"
  shows "read_origin_output_key key metadata output = Inr output"
  using assms by (simp add: read_origin_output_key_def and_then_def)

lemma origin_output_key_present:
  assumes "py_getitem metadata ''origin'' = Inr origin"
    and "py_getitem origin ''output'' = Inr (JObj kvs)" and "map_of kvs key = Some v"
  shows "read_origin_output_key key metadata output = Inr (AList.update key v output)"
  using assms by (simp add: read_origin_output_key_def and_then_def)

lemma parse_processed_data_label_absent:
  assumes "parse_processed_data new_ProcessedData metadata = Inr container"
    and "py_getitem metadata ''origin'' = Inr origin"
    and "py_getitem origin ''output'' = Inr (JObj kvs)" and "map_of kvs ''label'' = None"
  shows "map_of (pd_output container) ''label'' = None"
proof -
  from assms(1) obtain output1 output2 where
    o1: "read_origin_output_key ''name'' metadata (pd_output new_ProcessedData) = Inr output1" and
    o2: "read_origin_output_key ''label'' metadata output1 = Inr output2" and
    c: "pd_output container = output2"
    unfolding parse_processed_data_def and_then_Inr by auto
  have "output2 = output1"
    using o2 origin_output_key_absent [OF assms(2-4), of output1] by simp
  moreover have "map_of output1 ''label'' = None"
  proof (cases "map_of kvs ''name''")
    case None
    then show ?thesis
      using o1 origin_output_key_absent [OF assms(2,3) None, of "pd_output new_ProcessedData"]
      by (simp add: new_ProcessedData_def)
  next
    case (Some v)
    then show ?thesis
      using o1 origin_output_key_present [OF assms(2,3) Some, of "pd_output new_ProcessedData"]
      by (auto simp: new_ProcessedData_def)
  qed
  ultimately show ?thesis using c by simp
qed

text \<open>
  C6 at a concrete input. The example image carries an origin document whose
  \<^verbatim>\<open>output\<close> has a \<^verbatim>\<open>name\<close> and no \<^verbatim>\<open>label\<close>. \<^verbatim>\<open>get_processed_data\<close> decodes it
  into a container whose \<^verbatim>\<open>output\<close> has no \<^verbatim>\<open>label\<close> key (the lemma above shows it
  for every such document). Encoding that container does not produce a
  document without the \<^verbatim>\<open>label\<close> key: \<^verbatim>\<open>update_processed_data\<close> reads
  \<^verbatim>\<open>output['label']\<close> without a test and raises \<^verbatim>\<open>KeyError('label')\<close>.
\<close>

theorem update_processed_data_requires_label:
  "fst (get_processed_data ''/workspace'' example_format_date (JInt 31) example_world)
     = Inr (Some example_processed_data)
   \<and> map_of (pd_output example_processed_data) ''label'' = None
   \<and> fst (update_processed_data ''/workspace'' example_processed_data example_world)
       = Inl (KeyError ''label'')"
proof -
  have "processed_data_metadata example_processed_data = Inl (KeyError ''label'')"
    by (simp add: processed_data_metadata_def example_processed_data_def dict_getitem_def
        and_then_def)
  moreover have "pd_md_uri example_processed_data = JInt 31"
    by (simp add: example_processed_data_def)
  ultimately have "fst (update_processed_data ''/workspace'' example_processed_data example_world)
       = Inl (KeyError ''label'')"
    by (simp add: update_processed_data_def example_processed_image_found Let_def)
  moreover have "map_of (pd_output example_processed_data) ''label'' = None"
    by (simp add: example_processed_data_def)
  ultimately show ?thesis using example_get_processed_data by simp
qed

lemma file_names_append: "file_names (xs @ ys) = file_names xs @ file_names ys"
  by (induction xs rule: file_names.induct) simp_all

lemma origin_annotations_removed:
  "set (origin_annotation_ids anns) \<subseteq> S \<Longrightarrow>
   ''processed_data.md.json'' \<notin> set (file_names (filter (\<lambda>a. ann_id a \<notin> S) anns))"
  by (induction anns rule: origin_annotation_ids.induct) (auto split: if_splits)

lemma unlink_all_apply:
  "table i = Some obj \<Longrightarrow>
   unlink_all ids table i
     = Some (obj\<lparr>o_annotations := filter (\<lambda>a. ann_id a \<notin> set ids) (o_annotations obj)\<rparr>)"
  by (simp add: unlink_all_def)

lemma origin_basename:
  "os_path_basename (os_path_join workspace ''processed_data.md.json'') = ''processed_data.md.json''"
  by (rule basename_join) simp

lemma update_processed_data_result:
  assumes img: "get_object (images (srv w)) (pd_md_uri processed_data) = Some (i, img)"
    and md: "processed_data_metadata processed_data = Inr metadata"
  shows "\<exists>w' img'. update_processed_data workspace processed_data w = (Inr (), w')
           \<and> images (srv w') i = Some img'
           \<and> o_annotations img'
               = filter (\<lambda>a. ann_id a \<notin> set (origin_annotation_ids (o_annotations img)))
                   (o_annotations img)
                 @ [FileAnnotation (next_id (srv w)) ''processed_data.md.json'' (JsonText metadata)]"
proof (cases "origin_annotation_ids (o_annotations img) = []")
  case True
  then show ?thesis
    using img md
    by (simp add: update_processed_data_def Let_def write_json_def
        create_file_ann_from_local_file_def link_annotation_def origin_basename)
next
  case False
  then show ?thesis
    using img md
    by (simp add: update_processed_data_def Let_def write_json_def
        create_file_ann_from_local_file_def link_annotation_def origin_basename
        delete_annotations_def unlink_all_def)
qed

lemma update_processed_data_success:
  assumes "update_processed_data workspace processed_data w = (Inr (), w')"
    and "get_object (images (srv w)) (pd_md_uri processed_data) = Some (i, img)"
  shows "\<exists>metadata. processed_data_metadata processed_data = Inr metadata"
proof (cases "processed_data_metadata processed_data")
  case (Inl e)
  then show ?thesis using assms by (simp add: update_processed_data_def Let_def)
next
  case (Inr metadata)
  then show ?thesis by simp
qed

text \<open>
  C10. After a successful \<^verbatim>\<open>update_processed_data\<close> on an image, the annotations of
  the image are the former ones without the file annotations that were named
  \<^verbatim>\<open>processed_data.md.json\<close>, followed by one new file annotation of that name holding
  the freshly encoded document: the image carries exactly one file annotation named
  \<^verbatim>\<open>processed_data.md.json\<close>, whatever number it carried before.
\<close>

theorem update_processed_data_single_origin:
  assumes "update_processed_data workspace processed_data w = (Inr (), w')"
    and "get_object (images (srv w)) (pd_md_uri processed_data) = Some (i, img)"
  shows "\<exists>img' metadata. images (srv w') i = Some img'
           \<and> processed_data_metadata processed_data = Inr metadata
           \<and> o_annotations img'
               = filter (\<lambda>a. ann_id a \<notin> set (origin_annotation_ids (o_annotations img)))
                   (o_annotations img)
                 @ [FileAnnotation (next_id (srv w)) ''processed_data.md.json'' (JsonText metadata)]
           \<and> filter (\<lambda>n. n = ''processed_data.md.json'') (file_names (o_annotations img'))
               = [''processed_data.md.json'']"
proof -
  obtain metadata where md: "processed_data_metadata processed_data = Inr metadata"
    using update_processed_data_success [OF assms] by blast
  obtain w'' img' where r: "update_processed_data workspace processed_data w = (Inr (), w'')"
      "images (srv w'') i = Some img'"
      "o_annotations img'
         = filter (\<lambda>a. ann_id a \<notin> set (origin_annotation_ids (o_annotations img)))
             (o_annotations img)
           @ [FileAnnotation (next_id (srv w)) ''processed_data.md.json'' (JsonText metadata)]"
    using update_processed_data_result [OF assms(2) md] by blast
  have same: "w'' = w'" using r(1) assms(1) by simp
  have none: "''processed_data.md.json'' \<notin> set (file_names
      (filter (\<lambda>a. ann_id a \<notin> set (origin_annotation_ids (o_annotations img))) (o_annotations img)))"
    by (rule origin_annotations_removed) simp
  have "filter (\<lambda>n. n = ''processed_data.md.json'') (file_names (o_annotations img'))
          = [''processed_data.md.json'']"
    using none by (auto simp: r(3) file_names_append filter_empty_conv)
  then show ?thesis using r(2,3) md same by blast
qed

lemma example_labelled_metadata:
  "\<exists>metadata. processed_data_metadata example_labelled_data = Inr metadata"
  by (simp add: processed_data_metadata_def example_labelled_data_def example_processed_data_def
      dict_getitem_def and_then_def)

lemma example_labelled_image:
  "get_object (images (srv example_world)) (pd_md_uri example_labelled_data)
     = Some (31, example_processed_image)"
  using example_processed_image_found
  by (simp add: example_labelled_data_def example_processed_data_def)

lemma example_update_succeeds:
  "update_processed_data ''/workspace'' example_labelled_data example_world
     = (Inr (), snd (update_processed_data ''/workspace'' example_labelled_data example_world))"
proof -
  obtain metadata where "processed_data_metadata example_labelled_data = Inr metadata"
    using example_labelled_metadata by blast
  from update_processed_data_result [OF example_labelled_image this, of "''/workspace''"]
  show ?thesis by auto
qed

theorem update_processed_data_single_origin_witness:
  "update_processed_data ''/workspace'' example_labelled_data example_world
     = (Inr (), snd (update_processed_data ''/workspace'' example_labelled_data example_world))
   \<and> get_object (images (srv example_world)) (pd_md_uri example_labelled_data)
       = Some (31, example_processed_image)
   \<and> (\<exists>img' metadata.
         images (srv (snd (update_processed_data ''/workspace'' example_labelled_data example_world))) 31
           = Some img'
       \<and> processed_data_metadata example_labelled_data = Inr metadata
       \<and> o_annotations img'
           = filter (\<lambda>a. ann_id a \<notin> set (origin_annotation_ids (o_annotations example_processed_image)))
               (o_annotations example_processed_image)
             @ [FileAnnotation (next_id (srv example_world)) ''processed_data.md.json'' (JsonText metadata)]
       \<and> filter (\<lambda>n. n = ''processed_data.md.json'') (file_names (o_annotations img'))
           = [''processed_data.md.json''])
   \<and> file_names (o_annotations example_processed_image)
       = [''processed_data.md.json'', ''processed_data.md.json'']"
proof -
  have two: "file_names (o_annotations example_processed_image)
       = [''processed_data.md.json'', ''processed_data.md.json'']"
    by (simp add: example_processed_image_def)
  show ?thesis
    using update_processed_data_single_origin [OF example_update_succeeds example_labelled_image]
      example_update_succeeds example_labelled_image two
    by blast
qed

section \<open>Properties of the service builder\<close>

lemma builder_call_sets_instance:
  "builder_call connect host port username password st = (Inr instance, st1) \<Longrightarrow>
   builder_instance st1 = Some instance"
  by (auto simp: builder_call_def OmeroMetadataService_init_def split: option.splits if_splits)

lemma builder_call_returns_instance:
  "builder_instance st = Some instance \<Longrightarrow>
   builder_call connect host port username password st = (Inr instance, st)"
  by (simp add: builder_call_def)

lemma builder_calls_return_instance:
  "builder_instance st = Some instance \<Longrightarrow>
   builder_calls connect args st = (replicate (length args) (Inr instance), st)"
proof (induction args)
  case Nil
  show ?case by simp
next
  case (Cons a args)
  obtain host port username password where a: "a = (host, port, username, password)"
    by (cases a) auto
  show ?case using Cons by (simp add: a builder_call_returns_instance)
qed

text \<open>
  C9. Once a call of the builder has returned a service, every later call returns the
  same service object, whatever host, port, user name and password it is given (and
  whatever the server would answer to them), and changes nothing: the arguments of the
  later calls are ignored.
\<close>

theorem builder_is_singleton:
  assumes "builder_call connect host port username password st = (Inr instance, st1)"
  shows "builder_call connect' host' port' username' password' st1 = (Inr instance, st1)
       \<and> builder_calls connect' args st1 = (replicate (length args) (Inr instance), st1)"
  using builder_call_sets_instance [OF assms]
  by (simp add: builder_call_returns_instance builder_calls_return_instance)

lemma example_first_call:
  "builder_call example_connect (JStr ''omero.example.org'') (JInt 4064) (JStr ''root'') (JStr ''secret'')
     example_interpreter = (Inr 0, example_interpreter1)"
  by (simp add: builder_call_def OmeroMetadataService_init_def example_connect_def
      example_interpreter_def example_interpreter1_def)

theorem builder_is_singleton_witness:
  "builder_call example_connect (JStr ''omero.example.org'') (JInt 4064) (JStr ''root'') (JStr ''secret'')
     example_interpreter = (Inr 0, example_interpreter1)
   \<and> builder_call example_connect (JStr ''other.example.org'') (JInt 14064) (JStr ''guest'') (JStr ''wrong'')
       example_interpreter1 = (Inr 0, example_interpreter1)
   \<and> builder_calls example_connect
       [(JStr ''other.example.org'', JInt 14064, JStr ''guest'', JStr ''wrong''),
        (JStr ''omero.example.org'', JInt 4064, JStr ''root'', JStr ''secret'')]
       example_interpreter1 = ([Inr 0, Inr 0], example_interpreter1)"
  using builder_is_singleton [OF example_first_call, of example_connect "JStr ''other.example.org''"
      "JInt 14064" "JStr ''guest''" "JStr ''wrong''"
      "[(JStr ''other.example.org'', JInt 14064, JStr ''guest'', JStr ''wrong''),
        (JStr ''omero.example.org'', JInt 4064, JStr ''root'', JStr ''secret'')]"]
    example_first_call
  by (simp del: builder_calls.simps)

end
